theory Spec2Isabelle
  imports Main
begin

section \<open>JavaScript strings and values\<close>

text \<open>
  A JavaScript string is a sequence of UTF-16 code units. \<open>decodeURIComponent\<close> can
  produce code units above 255, so a string is modelled as a list of code units
  (natural numbers); \<open>js\<close> embeds an ASCII literal.
\<close>

type_synonym jsstring = "nat list"

definition js :: "string \<Rightarrow> jsstring" where
  "js s = map of_char s"

text \<open>\<open>s.startsWith(p)\<close>, and \<open>s.includes(t)\<close>: \<open>t\<close> occurs in \<open>s\<close> as a contiguous run.\<close>

definition startsWith :: "jsstring \<Rightarrow> jsstring \<Rightarrow> bool" where
  "startsWith s p = (take (length p) s = p)"

fun includes_js :: "jsstring \<Rightarrow> jsstring \<Rightarrow> bool" where
  "includes_js [] t = (t = [])"
| "includes_js (c # s) t = (startsWith (c # s) t \<or> includes_js s t)"

text \<open>
  \<open>s.trim()\<close> removes leading and trailing WhiteSpace and LineTerminator code units
  (ECMA-262, TrimString).
\<close>

definition is_js_space :: "nat \<Rightarrow> bool" where
  "is_js_space c =
     (c \<in> set [0x09, 0x0A, 0x0B, 0x0C, 0x0D, 0x20, 0xA0, 0x1680, 0x2028, 0x2029,
               0x202F, 0x205F, 0x3000, 0xFEFF]
      \<or> (0x2000 \<le> c \<and> c \<le> 0x200A))"

definition trim :: "jsstring \<Rightarrow> jsstring" where
  "trim s = rev (dropWhile is_js_space (rev (dropWhile is_js_space s)))"

text \<open>
  The decimal digits of a non-negative integer, which is how a template literal prints
  \<open>Date.now()\<close> (an integer below \<open>1e21\<close>).
\<close>

fun decimal :: "nat \<Rightarrow> jsstring" where
  "decimal n = (if n < 10 then [48 + n] else decimal (n div 10) @ [48 + n mod 10])"

text \<open>
  Parsed JSON. A number is an IEEE double; the code under study only tests a number
  for truth and converts it to a string, so \<open>JNum\<close> keeps exactly these two
  observations: whether the number is non-zero, and the string that \<open>Number::toString\<close>
  prints for it (\<open>12\<close>, \<open>0.5\<close>, \<open>1e+21\<close>). An object is the list of its own properties,
  each key once.
\<close>

datatype json =
    JNull
  | JBool bool
  | JNum bool jsstring
  | JStr jsstring
  | JArr "json list"
  | JObj "(jsstring \<times> json) list"

text \<open>ToBoolean, as \<open>if (v)\<close> and \<open>v || w\<close> apply it.\<close>

fun truthy :: "json \<Rightarrow> bool" where
  "truthy JNull = False"
| "truthy (JBool b) = b"
| "truthy (JNum nz printed) = nz"
| "truthy (JStr s) = (s \<noteq> [])"
| "truthy (JArr xs) = True"
| "truthy (JObj kvs) = True"

text \<open>
  Property read \<open>v?.k\<close> on a parsed JSON value: \<open>None\<close> is \<open>undefined\<close>, which is what
  \<open>null\<close>, a primitive, an array or an object without the key give for a name such as
  \<open>error\<close>.
\<close>

fun get_prop :: "json \<Rightarrow> jsstring \<Rightarrow> json option" where
  "get_prop (JObj kvs) k = map_of kvs k"
| "get_prop v k = None"

fun join_comma :: "jsstring list \<Rightarrow> jsstring" where
  "join_comma [] = []"
| "join_comma [s] = s"
| "join_comma (s # t # ss) = s @ [44] @ join_comma (t # ss)"

text \<open>
  ToString (ECMA-262), which the \<open>Error\<close> constructor applies to its message and a
  template literal to an interpolated value; \<open>None\<close> is the \<open>TypeError\<close> it throws. An
  array is joined with commas, \<open>null\<close> elements printing as nothing. A parsed object
  with no property of its own called \<open>toString\<close> prints as \<open>[object Object]\<close> through
  \<open>Object.prototype.toString\<close>; with such a property, which is never callable in parsed
  JSON, OrdinaryToPrimitive finds no primitive (\<open>valueOf\<close> is not callable either or
  returns the object) and throws.
\<close>

fun toString :: "json \<Rightarrow> jsstring option" where
  "toString JNull = Some (js ''null'')"
| "toString (JBool b) = Some (if b then js ''true'' else js ''false'')"
| "toString (JNum nz printed) = Some printed"
| "toString (JStr s) = Some s"
| "toString (JArr xs) =
     map_option join_comma (those (map (\<lambda>x. if x = JNull then Some [] else toString x) xs))"
| "toString (JObj kvs) =
     (if map_of kvs (js ''toString'') = None then Some (js ''[object Object]'') else None)"

section \<open>Transport gateway (api/client)\<close>

subsection \<open>Filename resolver\<close>

text \<open>
  What the gateway functions throw: an \<open>ApiError\<close> with its message and status, the
  rejection of \<open>response.json()\<close>, the \<open>URIError\<close> of \<open>decodeURIComponent\<close>, the
  rejection of \<open>fetch\<close> itself, and the \<open>TypeError\<close> of a ToString that finds no
  primitive.
\<close>

datatype gateway_error =
    ApiError jsstring nat
  | JsonRejected
  | URIError
  | NetworkError
  | TypeError

text \<open>
  The regular expression \<open>/filename\*?=([^;]+)/i\<close>. \<open>ci_eq c p\<close> compares a code unit
  with a lower-case ASCII letter of the pattern, ignoring case (no code unit outside
  ASCII canonicalises to an ASCII letter). \<open>match_here\<close> matches at the start of the
  string and yields capture group 1, the longest run of code units other than \<open>;\<close>.
  \<open>exec_filename\<close> is \<open>exec\<close>: the leftmost position where the pattern matches.
\<close>

definition ci_eq :: "nat \<Rightarrow> nat \<Rightarrow> bool" where
  "ci_eq c p = (c = p \<or> c + 32 = p)"

definition match_here :: "jsstring \<Rightarrow> jsstring option" where
  "match_here s =
     (if list_all2 ci_eq (take 8 s) (js ''filename'') then
        (let r = drop 8 s;
             r1 = (case r of [] \<Rightarrow> r | c # t \<Rightarrow> if c = 42 then t else r)
         in case r1 of
              [] \<Rightarrow> None
            | c # t \<Rightarrow>
                if c = 61 then
                  (let g = takeWhile (\<lambda>x. x \<noteq> 59) t
                   in if g = [] then None else Some g)
                else None)
      else None)"

fun exec_filename :: "jsstring \<Rightarrow> jsstring option" where
  "exec_filename [] = match_here []"
| "exec_filename (c # s) =
     (case match_here (c # s) of Some g \<Rightarrow> Some g | None \<Rightarrow> exec_filename s)"

text \<open>
  \<open>decodeURIComponent\<close> (ECMA-262, Decode with an empty reserved set). First every
  \<open>%\<close> must start an escape \<open>%XX\<close> of two hexadecimal digits; then each escaped byte is
  either ASCII or the first byte of a well-formed UTF-8 sequence (Unicode, table 3-7)
  whose other bytes are the escapes that follow it directly. Anything else throws
  \<open>URIError\<close> (\<open>None\<close>). A code point above \<open>0xFFFF\<close> becomes a surrogate pair.
\<close>

datatype uri_token = Lit nat | Esc nat

definition hex_value :: "nat \<Rightarrow> nat option" where
  "hex_value c =
     (if 48 \<le> c \<and> c \<le> 57 then Some (c - 48)
      else if 65 \<le> c \<and> c \<le> 70 then Some (c - 55)
      else if 97 \<le> c \<and> c \<le> 102 then Some (c - 87)
      else None)"

fun uri_tokens :: "jsstring \<Rightarrow> uri_token list option" where
  "uri_tokens [] = Some []"
| "uri_tokens (c # s) =
     (if c = 37 then
        (case s of
           h1 # h2 # rest \<Rightarrow>
             (case (hex_value h1, hex_value h2) of
                (Some a, Some b) \<Rightarrow> map_option ((#) (Esc (16 * a + b))) (uri_tokens rest)
              | _ \<Rightarrow> None)
         | _ \<Rightarrow> None)
      else map_option ((#) (Lit c)) (uri_tokens s))"

definition is_cont :: "nat \<Rightarrow> bool" where
  "is_cont b = (0x80 \<le> b \<and> b \<le> 0xBF)"

definition utf16 :: "nat \<Rightarrow> jsstring" where
  "utf16 v =
     (if v < 0x10000 then [v]
      else [0xD800 + (v - 0x10000) div 0x400, 0xDC00 + (v - 0x10000) mod 0x400])"

fun uri_decode :: "uri_token list \<Rightarrow> jsstring option" where
  "uri_decode [] = Some []"
| "uri_decode (Lit c # ts) = map_option ((#) c) (uri_decode ts)"
| "uri_decode (Esc b # ts) =
     (if b < 0x80 then map_option ((#) b) (uri_decode ts)
      else if 0xC2 \<le> b \<and> b \<le> 0xDF then
        (case ts of
           Esc b2 # rest \<Rightarrow>
             if is_cont b2
             then map_option ((@) (utf16 ((b - 0xC0) * 0x40 + (b2 - 0x80)))) (uri_decode rest)
             else None
         | _ \<Rightarrow> None)
      else if 0xE0 \<le> b \<and> b \<le> 0xEF then
        (case ts of
           Esc b2 # Esc b3 # rest \<Rightarrow>
             if (if b = 0xE0 then 0xA0 else 0x80) \<le> b2
                \<and> b2 \<le> (if b = 0xED then 0x9F else 0xBF) \<and> is_cont b3
             then map_option
                    ((@) (utf16 ((b - 0xE0) * 0x1000 + (b2 - 0x80) * 0x40 + (b3 - 0x80))))
                    (uri_decode rest)
             else None
         | _ \<Rightarrow> None)
      else if 0xF0 \<le> b \<and> b \<le> 0xF4 then
        (case ts of
           Esc b2 # Esc b3 # Esc b4 # rest \<Rightarrow>
             if (if b = 0xF0 then 0x90 else 0x80) \<le> b2
                \<and> b2 \<le> (if b = 0xF4 then 0x8F else 0xBF) \<and> is_cont b3 \<and> is_cont b4
             then map_option
                    ((@) (utf16 ((b - 0xF0) * 0x40000 + (b2 - 0x80) * 0x1000
                                 + (b3 - 0x80) * 0x40 + (b4 - 0x80))))
                    (uri_decode rest)
             else None
         | _ \<Rightarrow> None)
      else None)"

definition decodeURIComponent :: "jsstring \<Rightarrow> gateway_error + jsstring" where
  "decodeURIComponent s =
     (case uri_tokens s of
        None \<Rightarrow> Inl URIError
      | Some ts \<Rightarrow> (case uri_decode ts of None \<Rightarrow> Inl URIError | Some r \<Rightarrow> Inr r))"

text \<open>
  \<open>parseFileName\<close>. The clock \<open>Date.now()\<close> is the parameter \<open>now\<close>; \<open>None\<close> is a
  \<open>null\<close> header, and \<open>!contentDisposition\<close> also holds for the empty string.
\<close>

definition utf8_prefix :: jsstring where
  "utf8_prefix = js ''UTF-8'' @ [39, 39]"

definition is_quote :: "nat \<Rightarrow> bool" where
  "is_quote c = (c = 34 \<or> c = 39)"

definition fallback_name :: "nat \<Rightarrow> jsstring" where
  "fallback_name now = js ''download-'' @ decimal now"

definition parseFileName :: "nat \<Rightarrow> jsstring option \<Rightarrow> gateway_error + jsstring" where
  "parseFileName now contentDisposition =
     (case contentDisposition of
        None \<Rightarrow> Inr (fallback_name now)
      | Some h \<Rightarrow>
          if h = [] then Inr (fallback_name now)
          else
            (case exec_filename h of
               None \<Rightarrow> Inr (fallback_name now)
             | Some m1 \<Rightarrow>
                 (let v = trim m1
                  in if startsWith v utf8_prefix
                     then decodeURIComponent (drop 7 v)
                     else Inr (filter (\<lambda>c. \<not> is_quote c) v))))"

subsection \<open>Responses\<close>

text \<open>
  A \<open>Response\<close> as the gateway reads it: the status line, \<open>headers.get\<close> (by
  lower-case name, \<open>None\<close> for \<open>null\<close>), and what \<open>json()\<close>, \<open>text()\<close> and \<open>blob()\<close>
  settle to (\<open>json_result = None\<close> when \<open>json()\<close> rejects). \<open>ok\<close> is a status in the range
  200 to 299.
\<close>

record blob =
  blob_bytes :: "nat list"
  blob_type :: jsstring

record response =
  status :: nat
  statusText :: jsstring
  headers :: "string \<Rightarrow> jsstring option"
  json_result :: "json option"
  text_result :: jsstring
  blob_result :: blob

definition ok :: "response \<Rightarrow> bool" where
  "ok r = (200 \<le> status r \<and> status r \<le> 299)"

datatype api_response =
    JsonResponse (data: json) (response: response)
  | FileResponse (blob: blob) (fileName: jsstring) (mimeType: jsstring) (response: response)

text \<open>
  \<open>new ApiError(message, status)\<close>: \<open>super(message)\<close> stores ToString of the message, and
  when that throws, the \<open>TypeError\<close> is what the \<open>throw\<close> statement throws.
\<close>

definition new_ApiError :: "json \<Rightarrow> nat \<Rightarrow> gateway_error" where
  "new_ApiError message st = (case toString message of Some m \<Rightarrow> ApiError m st | None \<Rightarrow> TypeError)"

definition handleResponse :: "nat \<Rightarrow> response \<Rightarrow> gateway_error + api_response" where
  "handleResponse now r =
     (if \<not> ok r then
        (let message =
               (case json_result r of
                  Some body \<Rightarrow>
                    (case get_prop body (js ''error'') of
                       Some e \<Rightarrow> if truthy e then e else JStr (statusText r)
                     | None \<Rightarrow> JStr (statusText r))
                | None \<Rightarrow>
                    if text_result r \<noteq> [] then JStr (text_result r)
                    else JStr (statusText r))
         in Inl (new_ApiError
                   (if truthy message then message else JStr (js ''API request failed''))
                   (status r)))
      else
        (let contentType = (case headers r ''content-type'' of Some v \<Rightarrow> v | None \<Rightarrow> [])
         in if includes_js contentType (js ''application/json'') then
              (case json_result r of
                 None \<Rightarrow> Inl JsonRejected
               | Some d \<Rightarrow> Inr (JsonResponse d r))
            else
              (let b = blob_result r;
                   mt = (if blob_type b \<noteq> [] then blob_type b
                         else if contentType \<noteq> [] then contentType
                         else js ''application/octet-stream'')
               in case parseFileName now (headers r ''content-disposition'') of
                    Inl e \<Rightarrow> Inl e
                  | Inr fn \<Rightarrow> Inr (FileResponse b fn mt r))))"

subsection \<open>Entry points\<close>

text \<open>
  The environment of a call: the configured base URL, the network (\<open>fetch\<close>, which
  resolves to a response or rejects) and the clock. A request is what \<open>fetch\<close> is
  given; a JSON body is kept as the value that \<open>JSON.stringify\<close> serialises. No caller
  in the repository passes the optional \<open>init\<close> argument, so it is left out.
\<close>

record upload_file =
  file_name :: jsstring
  file_bytes :: "nat list"

datatype request_body = NoBody | JsonBody json | FormBody "(jsstring \<times> upload_file) list"

record request =
  url :: jsstring
  http_method :: string
  content_type :: "jsstring option"
  body :: request_body

record gateway_env =
  VITE_API_BASE_URL :: "jsstring option"
  fetch :: "request \<Rightarrow> gateway_error + response"
  date_now :: nat

definition API_BASE_URL :: "gateway_env \<Rightarrow> jsstring" where
  "API_BASE_URL env =
     (case VITE_API_BASE_URL env of
        Some u \<Rightarrow> if u \<noteq> [] then u else js ''http://localhost:8081''
      | None \<Rightarrow> js ''http://localhost:8081'')"

definition get_json :: "response \<Rightarrow> gateway_error + json" where
  "get_json r = (case json_result r of None \<Rightarrow> Inl JsonRejected | Some d \<Rightarrow> Inr d)"

definition get :: "gateway_env \<Rightarrow> jsstring \<Rightarrow> gateway_error + json" where
  "get env path =
     (case fetch env \<lparr>url = API_BASE_URL env @ path, http_method = ''GET'',
                        content_type = None, body = NoBody\<rparr> of
        Inl e \<Rightarrow> Inl e
      | Inr r \<Rightarrow>
          if \<not> ok r then Inl (new_ApiError (JStr (statusText r)) (status r))
          else get_json r)"

definition postJson :: "gateway_env \<Rightarrow> jsstring \<Rightarrow> json \<Rightarrow> gateway_error + api_response" where
  "postJson env path payload =
     (case fetch env \<lparr>url = API_BASE_URL env @ path, http_method = ''POST'',
                        content_type = Some (js ''application/json''),
                        body = JsonBody payload\<rparr> of
        Inl e \<Rightarrow> Inl e
      | Inr r \<Rightarrow> handleResponse (date_now env) r)"

definition postFormData ::
  "gateway_env \<Rightarrow> jsstring \<Rightarrow> (jsstring \<times> upload_file) list \<Rightarrow> gateway_error + json" where
  "postFormData env path formData =
     (case fetch env \<lparr>url = API_BASE_URL env @ path, http_method = ''POST'',
                        content_type = None, body = FormBody formData\<rparr> of
        Inl e \<Rightarrow> Inl e
      | Inr r \<Rightarrow>
          if \<not> ok r then
            Inl (new_ApiError
                   (if text_result r \<noteq> [] then JStr (text_result r)
                    else JStr (js ''Upload failed''))
                   (status r))
          else get_json r)"

section \<open>Download trigger (utils/download)\<close>

text \<open>
  What a \<open>catch\<close> clause sees: an \<open>Error\<close> instance with its message, or some other
  thrown value.
\<close>

datatype caught = ErrorObject jsstring | OtherValue

text \<open>
  The browser as \<open>downloadFromApi\<close> uses it: the live object URLs with the blob behind
  each, the counter that names the next one, the children of \<open>document.body\<close>, the
  saves the browser has started (file name and blob), the clock, and what
  \<open>link.click()\<close> throws when it throws. A click on an anchor with a \<open>download\<close>
  attribute saves the blob behind its \<open>href\<close> under that name; \<open>removeChild\<close> takes out
  the anchor that \<open>appendChild\<close> put in.
\<close>

record anchor =
  href :: nat
  download :: jsstring

record browser =
  object_urls :: "(nat \<times> blob) list"
  next_url :: nat
  body_children :: "anchor list"
  saved :: "(jsstring \<times> blob) list"
  clock :: nat
  click_throws :: "caught option"

definition createObjectURL :: "blob \<Rightarrow> browser \<Rightarrow> nat \<times> browser" where
  "createObjectURL b h =
     (next_url h, h\<lparr>object_urls := (next_url h, b) # object_urls h, next_url := Suc (next_url h)\<rparr>)"

definition revokeObjectURL :: "nat \<Rightarrow> browser \<Rightarrow> browser" where
  "revokeObjectURL u h = h\<lparr>object_urls := filter (\<lambda>e. fst e \<noteq> u) (object_urls h)\<rparr>"

definition appendChild :: "anchor \<Rightarrow> browser \<Rightarrow> browser" where
  "appendChild link h = h\<lparr>body_children := body_children h @ [link]\<rparr>"

definition removeChild :: "anchor \<Rightarrow> browser \<Rightarrow> browser" where
  "removeChild link h = h\<lparr>body_children := remove1 link (body_children h)\<rparr>"

definition click :: "anchor \<Rightarrow> browser \<Rightarrow> caught + browser" where
  "click link h =
     (case click_throws h of
        Some e \<Rightarrow> Inl e
      | None \<Rightarrow>
          (case map_of (object_urls h) (href link) of
             Some b \<Rightarrow> Inr (h\<lparr>saved := saved h @ [(download link, b)]\<rparr>)
           | None \<Rightarrow> Inr h))"

text \<open>
  \<open>downloadFromApi\<close> returns the browser as the call leaves it, and either what was
  thrown or the value returned (the payload for a JSON response, nothing for a file).
\<close>

definition downloadFromApi :: "browser \<Rightarrow> api_response \<Rightarrow> browser \<times> (caught + json option)" where
  "downloadFromApi h resp =
     (case resp of
        JsonResponse d r \<Rightarrow> (h, Inr (Some d))
      | FileResponse b fn mt r \<Rightarrow>
          (let (blobUrl, h1) = createObjectURL b h;
               link = \<lparr>href = blobUrl,
                       download = (if fn \<noteq> [] then fn else fallback_name (clock h1))\<rparr>;
               h2 = appendChild link h1
           in case click link h2 of
                Inl e \<Rightarrow> (h2, Inl e)
              | Inr h3 \<Rightarrow> (revokeObjectURL blobUrl (removeChild link h3), Inr None)))"

section \<open>Generation request controllers (sections)\<close>

datatype feature = Assessment | LessonPlan | Content

datatype format_option = Fmt_json | Fmt_docx | Fmt_pdf

datatype view_mode = Preview | Json_view

text \<open>
  The state of a controller: the form fields of the three components (a component
  ignores the fields of the others) and the five pieces of submission state.
  \<open>result\<close> is \<open>JNull\<close> when the component holds \<open>null\<close>.
\<close>

record controller =
  topic :: jsstring
  language :: jsstring
  format :: format_option
  selectedDocs :: "jsstring list"
  courseName :: jsstring
  state :: jsstring
  startDate :: jsstring
  contentType :: jsstring
  tone :: jsstring
  audience :: jsstring
  length_option :: jsstring
  includePractice :: bool
  result :: json
  lastDownload :: "jsstring option"
  loading :: bool
  error :: "jsstring option"
  viewMode :: view_mode

definition format_string :: "format_option \<Rightarrow> jsstring" where
  "format_string f = (case f of Fmt_json \<Rightarrow> js ''json'' | Fmt_docx \<Rightarrow> js ''docx'' | Fmt_pdf \<Rightarrow> js ''pdf'')"

definition endpoint :: "feature \<Rightarrow> jsstring" where
  "endpoint f =
     (case f of
        Assessment \<Rightarrow> js ''/create/assessment''
      | LessonPlan \<Rightarrow> js ''/create/lesson_plan''
      | Content \<Rightarrow> js ''/create/content'')"

definition payload :: "feature \<Rightarrow> controller \<Rightarrow> json" where
  "payload f c =
     (case f of
        Assessment \<Rightarrow>
          JObj [(js ''query'', JStr (trim (topic c))),
                (js ''language'', JStr (language c)),
                (js ''output_format'', JStr (format_string (format c))),
                (js ''selected_documents'', JArr (map JStr (selectedDocs c)))]
      | LessonPlan \<Rightarrow>
          JObj [(js ''query'', JStr (trim (topic c))),
                (js ''course_name'', JStr (trim (courseName c))),
                (js ''state'', JStr (state c)),
                (js ''start_date'', JStr (startDate c)),
                (js ''language'', JStr (language c)),
                (js ''output_format'', JStr (format_string (format c))),
                (js ''selected_documents'', JArr (map JStr (selectedDocs c)))]
      | Content \<Rightarrow>
          JObj [(js ''query'', JStr (trim (topic c))),
                (js ''content_type'', JStr (contentType c)),
                (js ''audience'',
                   JStr (if trim (audience c) \<noteq> [] then trim (audience c)
                         else js ''Front Desk Associate trainees'')),
                (js ''tone'', JStr (tone c)),
                (js ''length'', JStr (length_option c)),
                (js ''include_practice'', JBool (includePractice c)),
                (js ''language'', JStr (language c)),
                (js ''output_format'', JStr (format_string (format c))),
                (js ''selected_documents'', JArr (map JStr (selectedDocs c)))])"

definition topic_message :: "feature \<Rightarrow> jsstring option" where
  "topic_message f =
     (case f of
        Assessment \<Rightarrow> None
      | LessonPlan \<Rightarrow> Some (js ''Please describe the lesson plan focus area.'')
      | Content \<Rightarrow> Some (js ''Please describe the content you need.''))"

definition docs_message :: "feature \<Rightarrow> jsstring" where
  "docs_message f =
     (case f of
        Assessment \<Rightarrow> js ''Please choose at least one knowledge base document.''
      | LessonPlan \<Rightarrow> js ''Select at least one document to ground the lesson plan.''
      | Content \<Rightarrow> js ''Select at least one knowledge base document to ground the content.'')"

definition failure_message :: "feature \<Rightarrow> jsstring" where
  "failure_message f =
     (case f of
        Assessment \<Rightarrow> js ''Failed to generate assessment.''
      | LessonPlan \<Rightarrow> js ''Failed to generate lesson plan.''
      | Content \<Rightarrow> js ''Failed to generate learning content.'')"

text \<open>\<open>e instanceof Error ? e.message : fallback\<close>.\<close>

definition message_or :: "caught \<Rightarrow> jsstring \<Rightarrow> jsstring" where
  "message_or e fallback = (case e of ErrorObject m \<Rightarrow> m | OtherValue \<Rightarrow> fallback)"

text \<open>
  \<open>handleSubmit\<close> up to its \<open>await postJson(...)\<close>: the new state and, when the
  gateway is called, the path and payload of that call. The assessment form has no
  topic check.
\<close>

definition handleSubmit_begin :: "feature \<Rightarrow> controller \<Rightarrow> controller \<times> (jsstring \<times> json) option" where
  "handleSubmit_begin f c =
     (let c1 = c\<lparr>error := None, lastDownload := None, viewMode := Preview\<rparr>
      in case (if trim (topic c) = [] then topic_message f else None) of
           Some m \<Rightarrow> (c1\<lparr>error := Some m\<rparr>, None)
         | None \<Rightarrow>
             if selectedDocs c = [] then (c1\<lparr>error := Some (docs_message f)\<rparr>, None)
             else (c1\<lparr>loading := True\<rparr>, Some (endpoint f, payload f c)))"

text \<open>
  \<open>handleSubmit\<close> from the point where \<open>postJson\<close> settles, with what it settled to:
  the \<open>try\<close> body, the \<open>catch\<close> clause and the \<open>finally\<close> clause.
\<close>

definition handleSubmit_settle ::
  "feature \<Rightarrow> (caught + api_response) \<Rightarrow> browser \<times> controller \<Rightarrow> browser \<times> controller" where
  "handleSubmit_settle f outcome hc =
     (let h = fst hc; c = snd hc
      in case outcome of
           Inl e \<Rightarrow> (h, c\<lparr>error := Some (message_or e (failure_message f)), loading := False\<rparr>)
         | Inr resp \<Rightarrow>
             (case resp of
                JsonResponse d r \<Rightarrow> (h, c\<lparr>result := d, loading := False\<rparr>)
              | FileResponse b fn mt r \<Rightarrow>
                  (case downloadFromApi h resp of
                     (h', Inl e) \<Rightarrow>
                       (h', c\<lparr>error := Some (message_or e (failure_message f)), loading := False\<rparr>)
                   | (h', Inr v) \<Rightarrow>
                       (h', c\<lparr>lastDownload := Some fn, result := JNull, loading := False\<rparr>))))"

text \<open>
  A controller over time. \<open>Submit\<close> runs \<open>handleSubmit\<close> up to its \<open>await\<close> and
  records the call in \<open>posted\<close>; \<open>Settle k outcome\<close> resumes the invocation that made
  call number \<open>k\<close> with what the gateway settled to. The handler keeps no record of
  which call a response answers, so \<open>k\<close> only names the invocation. \<open>Edit g\<close> is any
  change of the form fields (the \<open>onChange\<close> handlers and the effects that follow the
  suggested language and state): it leaves the submission state as it is. \<open>View m\<close> is
  the preview/JSON toggle. The submit button carries \<open>disabled={loading}\<close>.
\<close>

datatype event =
    Submit
  | Settle nat "caught + api_response"
  | Edit "controller \<Rightarrow> controller"
  | View view_mode

record session =
  page :: browser
  ctrl :: controller
  posted :: "(jsstring \<times> json) list"

definition edit_form :: "(controller \<Rightarrow> controller) \<Rightarrow> controller \<Rightarrow> controller" where
  "edit_form g c =
     (g c)\<lparr>result := result c, lastDownload := lastDownload c, loading := loading c,
           error := error c, viewMode := viewMode c\<rparr>"

definition step :: "feature \<Rightarrow> session \<Rightarrow> event \<Rightarrow> session" where
  "step f s ev =
     (case ev of
        Submit \<Rightarrow>
          (case handleSubmit_begin f (ctrl s) of
             (c, None) \<Rightarrow> s\<lparr>ctrl := c\<rparr>
           | (c, Some call) \<Rightarrow> s\<lparr>ctrl := c, posted := posted s @ [call]\<rparr>)
      | Settle k outcome \<Rightarrow>
          (case handleSubmit_settle f outcome (page s, ctrl s) of
             (h, c) \<Rightarrow> s\<lparr>page := h, ctrl := c\<rparr>)
      | Edit g \<Rightarrow> s\<lparr>ctrl := edit_form g (ctrl s)\<rparr>
      | View m \<Rightarrow> s\<lparr>ctrl := (ctrl s)\<lparr>viewMode := m\<rparr>\<rparr>)"

definition run :: "feature \<Rightarrow> session \<Rightarrow> event list \<Rightarrow> session" where
  "run f s evs = foldl (step f) s evs"

definition submit_disabled :: "controller \<Rightarrow> bool" where
  "submit_disabled c = loading c"

section \<open>Configuration status tracker (App and DataConfigurationPanel)\<close>

datatype upload_type = Courses | Holidays | Guidelines

record data_status =
  courses :: bool
  holidays :: bool
  guidelines :: bool
  documentCount :: nat

text \<open>A \<open>Partial\<close> of the status: the fields an update carries.\<close>

record status_update =
  upd_courses :: "bool option"
  upd_holidays :: "bool option"
  upd_guidelines :: "bool option"
  upd_documentCount :: "nat option"

text \<open>\<open>handleStatusChange\<close>: \<open>setDataStatus((prev) => ({ ...prev, ...update }))\<close>.\<close>

definition handleStatusChange :: "status_update \<Rightarrow> data_status \<Rightarrow> data_status" where
  "handleStatusChange u prev =
     \<lparr>courses = (case upd_courses u of Some b \<Rightarrow> b | None \<Rightarrow> courses prev),
      holidays = (case upd_holidays u of Some b \<Rightarrow> b | None \<Rightarrow> holidays prev),
      guidelines = (case upd_guidelines u of Some b \<Rightarrow> b | None \<Rightarrow> guidelines prev),
      documentCount = (case upd_documentCount u of Some n \<Rightarrow> n | None \<Rightarrow> documentCount prev)\<rparr>"

text \<open>The update \<open>{ [type]: true }\<close>.\<close>

definition only_true :: "upload_type \<Rightarrow> status_update" where
  "only_true t =
     \<lparr>upd_courses = (if t = Courses then Some True else None),
      upd_holidays = (if t = Holidays then Some True else None),
      upd_guidelines = (if t = Guidelines then Some True else None),
      upd_documentCount = None\<rparr>"

definition upload_endpoint :: "upload_type \<Rightarrow> jsstring" where
  "upload_endpoint t =
     (case t of
        Courses \<Rightarrow> js ''/upload/course_data''
      | Holidays \<Rightarrow> js ''/upload/holidays''
      | Guidelines \<Rightarrow> js ''/upload/guidelines'')"

text \<open>\<open>a || b\<close> where \<open>a\<close> is a property read (\<open>None\<close> is \<open>undefined\<close>).\<close>

definition js_or :: "json option \<Rightarrow> json \<Rightarrow> json" where
  "js_or a b = (case a of Some v \<Rightarrow> if truthy v then v else b | None \<Rightarrow> b)"

text \<open>
  \<open>successMessage\<close> of \<open>uploadConfig\<close>. Reading a property of \<open>null\<close> throws a
  \<open>TypeError\<close>, and so does a template literal whose value has no primitive. The text
  of such an error is the engine's, so the thrown values are the parameter
  \<open>type_error\<close>, one for each cause.
\<close>

datatype type_error_cause = Null_read | No_primitive

definition template ::
  "(type_error_cause \<Rightarrow> caught) \<Rightarrow> jsstring \<Rightarrow> json \<Rightarrow> jsstring \<Rightarrow> caught + jsstring" where
  "template type_error before v after =
     (case toString v of
        Some printed \<Rightarrow> Inr (before @ printed @ after)
      | None \<Rightarrow> Inl (type_error No_primitive))"

definition successMessage ::
  "(type_error_cause \<Rightarrow> caught) \<Rightarrow> upload_type \<Rightarrow> json \<Rightarrow> caught + jsstring" where
  "successMessage type_error t p =
     (if p = JNull then Inl (type_error Null_read)
      else
        (case t of
           Courses \<Rightarrow>
             template type_error (js ''Loaded '')
               (js_or (get_prop p (js ''courses_loaded''))
                  (js_or (get_prop p (js ''records_loaded'')) (JStr (js ''the uploaded''))))
               (js '' courses.'')
         | Holidays \<Rightarrow>
             template type_error (js ''Loaded holiday data for '')
               (js_or (get_prop p (js ''states_loaded''))
                  (js_or (get_prop p (js ''regions_loaded'')) (JStr (js ''the uploaded''))))
               (js '' regions.'')
         | Guidelines \<Rightarrow>
             template type_error (js ''Guidelines imported ('')
               (js_or (get_prop p (js ''guidelines_length'')) (JStr (js ''unknown'')))
               (js '' characters).'')))"

record panel =
  uploading :: "upload_type \<Rightarrow> bool"
  panel_message :: "jsstring option"
  panel_error :: "jsstring option"

text \<open>
  \<open>handleUpload\<close> up to its \<open>await postFormData(...)\<close>, with the call it makes, and from
  the point where that call settles. The readiness status lives in \<open>App\<close>; the panel
  reaches it through \<open>onStatusChange\<close>, which is \<open>handleStatusChange\<close>.
\<close>

definition handleUpload_begin ::
  "upload_type \<Rightarrow> upload_file \<Rightarrow> panel \<Rightarrow> panel \<times> jsstring \<times> (jsstring \<times> upload_file) list" where
  "handleUpload_begin t f p =
     (p\<lparr>uploading := (uploading p)(t := True), panel_message := None, panel_error := None\<rparr>,
      upload_endpoint t, [(js ''file'', f)])"

definition handleUpload_settle ::
  "(type_error_cause \<Rightarrow> caught) \<Rightarrow> upload_type \<Rightarrow> (caught + json) \<Rightarrow> panel \<times> data_status \<Rightarrow> panel \<times> data_status" where
  "handleUpload_settle type_error t outcome pd =
     (let p = fst pd; ds = snd pd
      in case outcome of
           Inl e \<Rightarrow>
             (p\<lparr>panel_error := Some (message_or e (js ''Upload failed. Please try again.'')),
                uploading := (uploading p)(t := False)\<rparr>, ds)
         | Inr answer \<Rightarrow>
             (case successMessage type_error t answer of
                Inr m \<Rightarrow>
                  (p\<lparr>panel_message := Some m, uploading := (uploading p)(t := False)\<rparr>,
                   handleStatusChange (only_true t) ds)
              | Inl e \<Rightarrow>
                  (p\<lparr>panel_error := Some (message_or e (js ''Upload failed. Please try again.'')),
                     uploading := (uploading p)(t := False)\<rparr>,
                   handleStatusChange (only_true t) ds)))"

section \<open>Application state and location resolver (App)\<close>

text \<open>
  The answers of \<open>/health\<close> and \<open>/get_documents\<close>, typed as the interfaces
  \<open>HealthStatus\<close> and \<open>DocumentsResponse\<close> declare them.
\<close>

record HealthStatus =
  courses_loaded :: int
  states_with_holidays :: int
  guidelines_loaded :: bool

datatype location_source = Unknown | Ip | Browser

datatype geo_error_code = PERMISSION_DENIED | POSITION_UNAVAILABLE | TIMEOUT

record coords =
  lat :: int
  lon :: int

text \<open>\<open>location\<close> is \<open>JNull\<close> while the component holds \<open>null\<close>.\<close>

record app =
  documents :: "jsstring list"
  app_loading :: bool
  app_error :: "jsstring option"
  location :: json
  health :: "HealthStatus option"
  dataStatus :: data_status
  locationSource :: location_source
  geolocationDenied :: bool

definition initial_app :: app where
  "initial_app =
     \<lparr>documents = [], app_loading = True, app_error = None, location = JNull, health = None,
      dataStatus = \<lparr>courses = False, holidays = False, guidelines = False, documentCount = 0\<rparr>,
      locationSource = Unknown, geolocationDenied = False\<rparr>"

text \<open>
  \<open>fetchLocation\<close> from the point where \<open>postJson\<close> settles; \<open>cs\<close> is the optional
  \<open>coords\<close> argument. A file response changes nothing.
\<close>

definition fetchLocation_settle :: "coords option \<Rightarrow> (caught + api_response) \<Rightarrow> app \<Rightarrow> app" where
  "fetchLocation_settle cs outcome a =
     (case outcome of
        Inr resp \<Rightarrow>
          (case resp of
             JsonResponse d r \<Rightarrow>
               (let a1 = a\<lparr>location := d, locationSource := (if cs \<noteq> None then Browser else Ip)\<rparr>
                in if cs \<noteq> None then a1\<lparr>geolocationDenied := False\<rparr> else a1)
           | FileResponse b fn mt r \<Rightarrow> a)
      | Inl e \<Rightarrow>
          (if cs \<noteq> None then a\<lparr>geolocationDenied := True\<rparr>
           else a\<lparr>locationSource := Unknown\<rparr>))"

text \<open>The error callback given to \<open>getCurrentPosition\<close>.\<close>

definition geolocation_error :: "geo_error_code \<Rightarrow> app \<Rightarrow> app" where
  "geolocation_error code a =
     (if code = PERMISSION_DENIED then a\<lparr>geolocationDenied := True\<rparr> else a)"

text \<open>
  \<open>initialise\<close>: its start, and its continuation when \<open>Promise.all\<close> settles, either
  rejected or with the document list (\<open>None\<close> when the answer has no \<open>documents\<close>)
  and the health answer (\<open>None\<close> when that request failed). After the continuation
  \<open>initialise\<close> awaits \<open>fetchLocation()\<close> and then clears \<open>loading\<close>.
\<close>

definition initialise_begin :: "app \<Rightarrow> app" where
  "initialise_begin a = a\<lparr>app_loading := True, app_error := None\<rparr>"

definition initialise_loaded ::
  "(caught + (jsstring list option \<times> HealthStatus option)) \<Rightarrow> app \<Rightarrow> app" where
  "initialise_loaded outcome a =
     (case outcome of
        Inl e \<Rightarrow>
          a\<lparr>app_error := Some (message_or e (js ''Unable to load initial data.'')),
            app_loading := False\<rparr>
      | Inr (docs, healthRes) \<Rightarrow>
          (let ds = (case docs of Some d \<Rightarrow> d | None \<Rightarrow> []);
               a1 = a\<lparr>documents := ds,
                      dataStatus := (dataStatus a)\<lparr>documentCount := length ds\<rparr>\<rparr>
           in case healthRes of
                None \<Rightarrow> a1
              | Some hs \<Rightarrow>
                  a1\<lparr>health := Some hs,
                     dataStatus := (dataStatus a1)
                       \<lparr>courses := (courses_loaded hs > 0),
                        holidays := (states_with_holidays hs > 0),
                        guidelines := guidelines_loaded hs\<rparr>\<rparr>))"

definition initialise_finish :: "app \<Rightarrow> app" where
  "initialise_finish a = a\<lparr>app_loading := False\<rparr>"

text \<open>\<open>location?.location?.state || "Corporate"\<close>.\<close>

definition suggestedState :: "app \<Rightarrow> json" where
  "suggestedState a =
     js_or (case get_prop (location a) (js ''location'') of
              Some l \<Rightarrow> get_prop l (js ''state'')
            | None \<Rightarrow> None)
           (JStr (js ''Corporate''))"

section \<open>Initial states and derived notions\<close>

text \<open>The \<open>kind\<close> tag of an \<open>ApiResponse\<close>.\<close>

datatype kind_tag = Kind_json | Kind_file

fun kind :: "api_response \<Rightarrow> kind_tag" where
  "kind (JsonResponse d r) = Kind_json"
| "kind (FileResponse b fn mt r) = Kind_file"

text \<open>
  The \<open>useState\<close> defaults of the three components, given the suggested language and
  state the component is mounted with.
\<close>

definition initial_controller :: "feature \<Rightarrow> jsstring \<Rightarrow> jsstring \<Rightarrow> controller" where
  "initial_controller f suggestedLanguage suggestedRegion =
     \<lparr>topic =
        (case f of
           Assessment \<Rightarrow> js ''Create a quiz about greeting guests at a hotel.''
         | LessonPlan \<Rightarrow>
             js ''A detailed lesson plan for Front Desk Associate trainees focusing on guest engagement.''
         | Content \<Rightarrow>
             js ''Create a learner handout on effective body language for front desk associates.''),
      language = suggestedLanguage,
      format = Fmt_json,
      selectedDocs = [],
      courseName = [],
      state = suggestedRegion,
      startDate = [],
      contentType = js ''Learning Guide'',
      tone = js ''Professional'',
      audience = js ''Front Desk Associate trainees'',
      length_option = js ''Standard'',
      includePractice = True,
      result = JNull,
      lastDownload = None,
      loading = False,
      error = None,
      viewMode = Preview\<rparr>"

text \<open>A page with no object URL alive, nothing appended and nothing saved.\<close>

definition fresh_browser :: "nat \<Rightarrow> caught option \<Rightarrow> browser" where
  "fresh_browser t ct =
     \<lparr>object_urls = [], next_url = 0, body_children = [], saved = [], clock = t,
      click_throws = ct\<rparr>"

text \<open>\<open>statuses[type]\<close>.\<close>

definition status_of :: "upload_type \<Rightarrow> data_status \<Rightarrow> bool" where
  "status_of t ds = (case t of Courses \<Rightarrow> courses ds | Holidays \<Rightarrow> holidays ds | Guidelines \<Rightarrow> guidelines ds)"

text \<open>Any number of uploads settling one after the other, each with its type and outcome.\<close>

definition settle_uploads ::
  "(type_error_cause \<Rightarrow> caught) \<Rightarrow> (upload_type \<times> (caught + json)) list \<Rightarrow> panel \<times> data_status \<Rightarrow> panel \<times> data_status" where
  "settle_uploads type_error us pd = foldl (\<lambda>x u. handleUpload_settle type_error (fst u) (snd u) x) pd us"

text \<open>\<open>response.headers.get("content-type") || ""\<close>, the content type a response declares.\<close>

definition declared_content_type :: "response \<Rightarrow> jsstring" where
  "declared_content_type r = (case headers r ''content-type'' of Some v \<Rightarrow> v | None \<Rightarrow> [])"

text \<open>The request \<open>postJson\<close> hands to \<open>fetch\<close>.\<close>

definition json_post :: "gateway_env \<Rightarrow> jsstring \<Rightarrow> json \<Rightarrow> request" where
  "json_post env path p =
     \<lparr>url = API_BASE_URL env @ path, http_method = ''POST'',
      content_type = Some (js ''application/json''), body = JsonBody p\<rparr>"

text \<open>
  A run driven through the form. \<open>Submit\<close> can happen only while the submit button is
  enabled, \<open>Settle k\<close> only for a call \<open>k\<close> that was made and has not settled, and the
  view toggle only while a result is shown; the calls in flight are the third argument.
  The result is \<open>None\<close> when an event of the list cannot happen where it stands.
  \<open>settles_latest\<close> says of a run that every response that settles answers the call
  made last.
\<close>

fun ui_run :: "feature \<Rightarrow> session \<Rightarrow> nat list \<Rightarrow> event list \<Rightarrow> (session \<times> nat list) option" where
  "ui_run f s pend [] = Some (s, pend)"
| "ui_run f s pend (Submit # evs) =
     (if submit_disabled (ctrl s) then None
      else ui_run f (step f s Submit)
             (if snd (handleSubmit_begin f (ctrl s)) = None then pend
              else pend @ [length (posted s)])
             evs)"
| "ui_run f s pend (Settle k outcome # evs) =
     (if k \<in> set pend then ui_run f (step f s (Settle k outcome)) (remove1 k pend) evs
      else None)"
| "ui_run f s pend (Edit g # evs) = ui_run f (step f s (Edit g)) pend evs"
| "ui_run f s pend (View m # evs) =
     (if truthy (result (ctrl s)) then ui_run f (step f s (View m)) pend evs else None)"

fun settles_latest :: "feature \<Rightarrow> session \<Rightarrow> event list \<Rightarrow> bool" where
  "settles_latest f s [] = True"
| "settles_latest f s (Submit # evs) = settles_latest f (step f s Submit) evs"
| "settles_latest f s (Settle k outcome # evs) =
     (Suc k = length (posted s) \<and> settles_latest f (step f s (Settle k outcome)) evs)"
| "settles_latest f s (Edit g # evs) = settles_latest f (step f s (Edit g)) evs"
| "settles_latest f s (View m # evs) = settles_latest f (step f s (View m)) evs"

section \<open>Properties of the filename resolver\<close>

lemma exec_filename_Nil: "exec_filename [] = None"
  by (simp add: match_here_def js_def)

lemma fallback_name_nonempty: "fallback_name n \<noteq> []"
  by (simp add: fallback_name_def js_def)

text \<open>\<open>trim\<close> takes white space off both ends and leaves it inside.\<close>

lemma trim_example: "trim ([9, 32] @ js ''a b'' @ [160, 10]) = js ''a b''"
  by (simp add: trim_def is_js_space_def js_def)

lemma trim_keeps_other: "trim (js ''_a_'') = js ''_a_''"
  by (simp add: trim_def is_js_space_def js_def)

text \<open>ToString on an array, on an empty array and on an object with its own \<open>toString\<close>.\<close>

lemma toString_array_example:
  "toString (JArr [JNum True (js ''1''), JNull, JArr [JBool False, JStr (js ''x'')], JObj []])
     = Some (js ''1,,false,x,[object Object]'')"
  by (simp add: js_def)

lemma toString_empty_array: "toString (JArr []) = Some []"
  by simp

lemma toString_own_toString:
  "toString (JArr [JObj [(js ''toString'', JNum True (js ''1''))]]) = None"
  by (simp add: js_def)

text \<open>
  The resolver on an absent header, on a quoted token and on an extended-encoding
  token, and the decoder on two byte sequences.
\<close>

lemma parseFileName_absent: "parseFileName n None = Inr (js ''download-'' @ decimal n)"
  by (simp add: parseFileName_def fallback_name_def)

lemma parseFileName_quoted_example:
  "parseFileName n (Some (js ''attachment; filename='' @ [34] @ js ''plan.pdf'' @ [34]))
     = Inr (js ''plan.pdf'')"
  by (simp add: parseFileName_def js_def match_here_def ci_eq_def trim_def is_js_space_def
      startsWith_def utf8_prefix_def is_quote_def)

lemma parseFileName_extended_example:
  "parseFileName n (Some (js ''attachment; FileName*=UTF-8'' @ [39, 39] @ js ''%E8%A1%A8.pdf''))
     = Inr [34920, 46, 112, 100, 102]"
  by (simp add: parseFileName_def js_def match_here_def ci_eq_def trim_def is_js_space_def
      startsWith_def utf8_prefix_def decodeURIComponent_def hex_value_def is_cont_def utf16_def)

lemma decodeURIComponent_rejects_surrogate:
  "decodeURIComponent (js ''%F0%9F%98%80%ED%A0%80'') = Inl URIError"
  by (simp add: js_def decodeURIComponent_def hex_value_def is_cont_def utf16_def)

lemma decodeURIComponent_example:
  "decodeURIComponent (js ''a%F0%9F%98%80%C3%A9%7e'') = Inr [97, 55357, 56832, 233, 126]"
  by (simp add: js_def decodeURIComponent_def hex_value_def is_cont_def utf16_def)

text \<open>
  Claim C6. For every header value, also an extended-encoding token whose
  percent-escapes are invalid, the filename resolver should return a string and never
  throw. The code does throw: on the header \<open>attachment; filename*=UTF-8''%ZZ\<close> the call
  of \<open>decodeURIComponent\<close> raises a \<open>URIError\<close>, which \<open>parseFileName\<close> does not catch.
\<close>

theorem parseFileName_invalid_escape_throws:
  "parseFileName 1700000000000
     (Some (js ''attachment; filename*=UTF-8'' @ [39, 39] @ js ''%ZZ'')) = Inl URIError"
  by (simp add: parseFileName_def js_def match_here_def ci_eq_def trim_def is_js_space_def
      startsWith_def utf8_prefix_def decodeURIComponent_def hex_value_def)

text \<open>
  Claim C10, as stated, fails: the prefix test is made on the captured token after
  \<open>trim()\<close>. In the header \<open>attachment; filename*= UTF-8''%41.pdf\<close> the captured token
  starts with a space, so it does not start with \<open>UTF-8''\<close>; the resolver nevertheless
  decodes it and returns \<open>A.pdf\<close>, not the trimmed token without its quotes, which is
  \<open>UTF-8%41.pdf\<close>.
\<close>

theorem parseFileName_space_before_prefix:
  "exec_filename (js ''attachment; filename*= UTF-8'' @ [39, 39] @ js ''%41.pdf'')
     = Some (js '' UTF-8'' @ [39, 39] @ js ''%41.pdf'')
   \<and> \<not> startsWith (js '' UTF-8'' @ [39, 39] @ js ''%41.pdf'') utf8_prefix
   \<and> filter (\<lambda>c. c \<noteq> 34 \<and> c \<noteq> 39) (trim (js '' UTF-8'' @ [39, 39] @ js ''%41.pdf''))
       = js ''UTF-8%41.pdf''
   \<and> parseFileName 0 (Some (js ''attachment; filename*= UTF-8'' @ [39, 39] @ js ''%41.pdf''))
       = Inr (js ''A.pdf'')"
  by (simp add: parseFileName_def js_def match_here_def ci_eq_def trim_def is_js_space_def
      startsWith_def utf8_prefix_def decodeURIComponent_def hex_value_def)

text \<open>
  Claim C10, amended. When the token captured from a content-disposition header does
  not, once trimmed, start with the extended-encoding prefix \<open>UTF-8''\<close>, the filename
  resolver returns the trimmed token with every double quote (34) and every single
  quote (39) removed, wherever it occurs. The witness is the header
  \<open>attachment; filename=""\<close>, whose token consists of two double quotes: the resolved
  name is the empty string, not a synthesized fallback name.
\<close>

theorem parseFileName_plain_token:
  assumes "exec_filename h = Some tok"
      and "\<not> startsWith (trim tok) utf8_prefix"
  shows "parseFileName n (Some h) = Inr (filter (\<lambda>c. c \<noteq> 34 \<and> c \<noteq> 39) (trim tok))"
proof -
  from assms(1) have "h \<noteq> []"
    using exec_filename_Nil by auto
  with assms show ?thesis
    by (simp add: parseFileName_def is_quote_def)
qed

theorem parseFileName_plain_token_witness:
  "exec_filename (js ''attachment; filename='' @ [34, 34]) = Some [34, 34]
   \<and> \<not> startsWith (trim [34, 34]) utf8_prefix
   \<and> parseFileName 0 (Some (js ''attachment; filename='' @ [34, 34])) = Inr []"
proof -
  have e: "exec_filename (js ''attachment; filename='' @ [34, 34]) = Some [34, 34]"
    by (simp add: js_def match_here_def ci_eq_def)
  have t: "trim [34, 34] = [34, 34]"
    by (simp add: trim_def is_js_space_def)
  have p: "\<not> startsWith (trim [34, 34]) utf8_prefix"
    by (simp add: t startsWith_def utf8_prefix_def js_def)
  from parseFileName_plain_token [OF e p, of 0] t e p show ?thesis
    by simp
qed

section \<open>Properties of the transport gateway\<close>

lemma postJson_fetch:
  "fetch env (json_post env path p) = Inr r \<Longrightarrow> postJson env path p = handleResponse (date_now env) r"
  by (simp add: postJson_def json_post_def)

lemma handleSubmit_settle_format:
  "handleSubmit_settle f outcome (h, c\<lparr>format := g\<rparr>)
     = (fst (handleSubmit_settle f outcome (h, c)), (snd (handleSubmit_settle f outcome (h, c)))\<lparr>format := g\<rparr>)"
  by (simp add: handleSubmit_settle_def split: sum.splits api_response.splits prod.splits)

text \<open>
  Claim C1, as stated, fails: a successful response that declares \<open>application/json\<close>
  but whose body does not decode yields neither variant, since \<open>response.json()\<close> rejects
  and \<open>handleResponse\<close> passes the rejection on.
\<close>

theorem handleResponse_undecodable_json:
  "handleResponse 0
     \<lparr>status = 200, statusText = js ''OK'',
      headers = [''content-type'' \<mapsto> js ''application/json''],
      json_result = None, text_result = js ''<html>busy</html>'',
      blob_result = \<lparr>blob_bytes = [60, 104], blob_type = js ''application/json''\<rparr>\<rparr>
   = Inl JsonRejected"
  by (simp add: handleResponse_def ok_def js_def startsWith_def)

text \<open>
  Claim C1, amended. For a successful response to \<open>postJson\<close>, whatever the request
  payload (and so whatever its \<open>output_format\<close>): if the declared content type contains
  \<open>application/json\<close> and the body decodes, the gateway returns the JSON variant with the
  decoded payload; if it contains \<open>application/json\<close> and the body does not decode, the
  call fails and returns no variant; if it does not contain \<open>application/json\<close> and
  the filename resolver returns a name, the gateway returns the file variant with the
  body blob, that name, the MIME type (the blob's type, else the content type, else
  \<open>application/octet-stream\<close>) and the response itself, whose headers hold the raw
  filename header. A returned value is the JSON variant exactly when the content type
  contains \<open>application/json\<close>, and the controller's handling of a returned value does
  not read the form's \<open>format\<close> field.
\<close>

theorem postJson_classifies_by_content_type:
  assumes "fetch env (json_post env path p) = Inr r"
      and "ok r"
  shows "(includes_js (declared_content_type r) (js ''application/json'') \<and> json_result r = Some d
            \<longrightarrow> postJson env path p = Inr (JsonResponse d r))
       \<and> (includes_js (declared_content_type r) (js ''application/json'') \<and> json_result r = None
            \<longrightarrow> postJson env path p = Inl JsonRejected)
       \<and> (\<not> includes_js (declared_content_type r) (js ''application/json'')
            \<and> parseFileName (date_now env) (headers r ''content-disposition'') = Inr fn
            \<longrightarrow> postJson env path p
                  = Inr (FileResponse (blob_result r) fn
                          (if blob_type (blob_result r) \<noteq> [] then blob_type (blob_result r)
                           else if declared_content_type r \<noteq> [] then declared_content_type r
                           else js ''application/octet-stream'') r))
       \<and> (postJson env path p = Inr v
            \<longrightarrow> (kind v = Kind_json \<longleftrightarrow> includes_js (declared_content_type r) (js ''application/json'')))
       \<and> snd (handleSubmit_settle f (Inr v) (h, c\<lparr>format := g\<rparr>))
            = (snd (handleSubmit_settle f (Inr v) (h, c)))\<lparr>format := g\<rparr>"
proof -
  have eq: "postJson env path p = handleResponse (date_now env) r"
    using assms(1) by (rule postJson_fetch)
  have 1: "includes_js (declared_content_type r) (js ''application/json'') \<and> json_result r = Some d
            \<longrightarrow> postJson env path p = Inr (JsonResponse d r)"
    using assms(2) by (simp add: eq handleResponse_def declared_content_type_def)
  have 2: "includes_js (declared_content_type r) (js ''application/json'') \<and> json_result r = None
            \<longrightarrow> postJson env path p = Inl JsonRejected"
    using assms(2) by (simp add: eq handleResponse_def declared_content_type_def)
  have 3: "\<not> includes_js (declared_content_type r) (js ''application/json'')
            \<and> parseFileName (date_now env) (headers r ''content-disposition'') = Inr fn
            \<longrightarrow> postJson env path p
                  = Inr (FileResponse (blob_result r) fn
                          (if blob_type (blob_result r) \<noteq> [] then blob_type (blob_result r)
                           else if declared_content_type r \<noteq> [] then declared_content_type r
                           else js ''application/octet-stream'') r)"
    using assms(2) by (simp add: eq handleResponse_def declared_content_type_def Let_def)
  have 4: "postJson env path p = Inr v
            \<longrightarrow> (kind v = Kind_json \<longleftrightarrow> includes_js (declared_content_type r) (js ''application/json''))"
    using assms(2)
    by (auto simp add: eq handleResponse_def declared_content_type_def Let_def
        split: option.splits sum.splits if_splits)
  have 5: "snd (handleSubmit_settle f (Inr v) (h, c\<lparr>format := g\<rparr>))
            = (snd (handleSubmit_settle f (Inr v) (h, c)))\<lparr>format := g\<rparr>"
    by (simp add: handleSubmit_settle_format)
  from 1 2 3 4 5 show ?thesis by blast
qed


theorem postJson_classifies_by_content_type_witness:
  "(let R = \<lparr>status = 200, statusText = js ''OK'',
              headers = [''content-type'' \<mapsto> js ''application/pdf'',
                         ''content-disposition'' \<mapsto> js ''attachment; filename=plan.pdf''],
              json_result = None, text_result = js ''%PDF'',
              blob_result = \<lparr>blob_bytes = [37, 80, 68, 70], blob_type = []\<rparr>\<rparr>;
        E = \<lparr>VITE_API_BASE_URL = None, fetch = (\<lambda>q. Inr R), date_now = 0\<rparr>;
        P = JObj [(js ''output_format'', JStr (js ''json''))]
    in fetch E (json_post E (js ''/create/lesson_plan'') P) = Inr R \<and> ok R
       \<and> postJson E (js ''/create/lesson_plan'') P
           = Inr (FileResponse (blob_result R) (js ''plan.pdf'') (js ''application/pdf'') R))
   \<and> (let R = \<lparr>status = 200, statusText = js ''OK'',
              headers = [''content-type'' \<mapsto> js ''application/json''],
              json_result = Some (JObj [(js ''language'', JStr (js ''English''))]),
              text_result = js ''{}'',
              blob_result = \<lparr>blob_bytes = [123, 125], blob_type = js ''application/json''\<rparr>\<rparr>;
        E = \<lparr>VITE_API_BASE_URL = None, fetch = (\<lambda>q. Inr R), date_now = 0\<rparr>;
        P = JObj [(js ''output_format'', JStr (js ''pdf''))]
    in fetch E (json_post E (js ''/create/lesson_plan'') P) = Inr R \<and> ok R
       \<and> postJson E (js ''/create/lesson_plan'') P
           = Inr (JsonResponse (JObj [(js ''language'', JStr (js ''English''))]) R))"
proof -
  let ?R1 = "\<lparr>status = 200, statusText = js ''OK'',
              headers = [''content-type'' \<mapsto> js ''application/pdf'',
                         ''content-disposition'' \<mapsto> js ''attachment; filename=plan.pdf''],
              json_result = None, text_result = js ''%PDF'',
              blob_result = \<lparr>blob_bytes = [37, 80, 68, 70], blob_type = []\<rparr>\<rparr>"
  let ?E1 = "\<lparr>VITE_API_BASE_URL = None, fetch = (\<lambda>q. Inr ?R1), date_now = 0\<rparr>"
  let ?P1 = "JObj [(js ''output_format'', JStr (js ''json''))]"
  let ?R2 = "\<lparr>status = 200, statusText = js ''OK'',
              headers = [''content-type'' \<mapsto> js ''application/json''],
              json_result = Some (JObj [(js ''language'', JStr (js ''English''))]),
              text_result = js ''{}'',
              blob_result = \<lparr>blob_bytes = [123, 125], blob_type = js ''application/json''\<rparr>\<rparr>"
  let ?E2 = "\<lparr>VITE_API_BASE_URL = None, fetch = (\<lambda>q. Inr ?R2), date_now = 0\<rparr>"
  let ?P2 = "JObj [(js ''output_format'', JStr (js ''pdf''))]"
  let ?path = "js ''/create/lesson_plan''"
  have f1: "fetch ?E1 (json_post ?E1 ?path ?P1) = Inr ?R1" by simp
  have o1: "ok ?R1" by (simp add: ok_def)
  have c1: "declared_content_type ?R1 = js ''application/pdf''"
    by (simp add: declared_content_type_def)
  have n1: "\<not> includes_js (js ''application/pdf'') (js ''application/json'')"
    by (simp add: js_def startsWith_def)
  have p1: "parseFileName (date_now ?E1) (headers ?R1 ''content-disposition'') = Inr (js ''plan.pdf'')"
    by (simp add: parseFileName_def js_def match_here_def ci_eq_def trim_def is_js_space_def
        startsWith_def utf8_prefix_def is_quote_def)
  have n1': "\<not> includes_js (declared_content_type ?R1) (js ''application/json'')"
    unfolding c1 by (rule n1)
  have ne: "js ''application/pdf'' \<noteq> []"
    by (simp add: js_def)
  have "postJson ?E1 ?path ?P1
          = Inr (FileResponse (blob_result ?R1) (js ''plan.pdf'')
                  (if blob_type (blob_result ?R1) \<noteq> [] then blob_type (blob_result ?R1)
                   else if declared_content_type ?R1 \<noteq> [] then declared_content_type ?R1
                   else js ''application/octet-stream'') ?R1)"
    using postJson_classifies_by_content_type [where fn = "js ''plan.pdf''", OF f1 o1] n1' p1
    by blast
  then have r1: "postJson ?E1 ?path ?P1
             = Inr (FileResponse (blob_result ?R1) (js ''plan.pdf'') (js ''application/pdf'') ?R1)"
    using ne by (simp add: c1)
  have f2: "fetch ?E2 (json_post ?E2 ?path ?P2) = Inr ?R2" by simp
  have o2: "ok ?R2" by (simp add: ok_def)
  have c2: "declared_content_type ?R2 = js ''application/json''"
    by (simp add: declared_content_type_def)
  have i2: "includes_js (js ''application/json'') (js ''application/json'')"
    by (simp add: js_def startsWith_def)
  have i2': "includes_js (declared_content_type ?R2) (js ''application/json'')"
    unfolding c2 by (rule i2)
  have j2: "json_result ?R2 = Some (JObj [(js ''language'', JStr (js ''English''))])"
    by simp
  have r2: "postJson ?E2 ?path ?P2 = Inr (JsonResponse (JObj [(js ''language'', JStr (js ''English''))]) ?R2)"
    using postJson_classifies_by_content_type
            [where d = "JObj [(js ''language'', JStr (js ''English''))]", OF f2 o2] i2' j2
    by blast
  from f1 o1 r1 f2 o2 r2 show ?thesis
    unfolding Let_def by blast
qed

text \<open>
  Claim C5, as stated, fails for two of the three entry points. \<open>get\<close> never reads
  the body of a failed response: with the JSON body \<open>{"error":"index unavailable"}\<close> its
  message is the status text.
\<close>

theorem get_ignores_error_body:
  "get \<lparr>VITE_API_BASE_URL = None,
         fetch = (\<lambda>q. Inr \<lparr>status = 500, statusText = js ''Internal Server Error'',
                               headers = [''content-type'' \<mapsto> js ''application/json''],
                               json_result = Some (JObj [(js ''error'', JStr (js ''index unavailable''))]),
                               text_result = js ''{'' @ [34] @ js ''error'' @ [34] @ js '':'' @ [34]
                                             @ js ''index unavailable'' @ [34] @ js ''}'',
                               blob_result = \<lparr>blob_bytes = [], blob_type = js ''application/json''\<rparr>\<rparr>),
         date_now = 0\<rparr>
       (js ''/get_documents'')
   = Inl (ApiError (js ''Internal Server Error'') 500)"
  by (simp add: get_def ok_def new_ApiError_def)

text \<open>
  Claim C5, amended. On a non-success status \<open>get\<close> and \<open>postFormData\<close> fail with an
  \<open>ApiError\<close> that carries the status code: the message of \<open>get\<close> is the status text,
  that of \<open>postFormData\<close> the raw text, or \<open>Upload failed\<close> when the text is empty.
  \<open>postJson\<close> fails with an \<open>ApiError\<close> that carries the status code and whose message
  is: ToString of the body's \<open>error\<close> field when the body is JSON and that field is
  truthy (the field itself when it is a non-empty string); the status text when the
  body is JSON without a truthy \<open>error\<close> field; otherwise the raw text when it is not
  empty, otherwise the status text; with \<open>API request failed\<close> in place of an empty
  status text. There is one exception: when ToString of a truthy \<open>error\<close> field throws
  (an object with a \<open>toString\<close> property of its own), \<open>postJson\<close> fails with that
  \<open>TypeError\<close> and no \<open>ApiError\<close> is thrown.
\<close>

theorem failure_messages:
  assumes "fetch env = (\<lambda>q. Inr r)"
      and "\<not> ok r"
  shows "postJson env path p
           = Inl (case json_result r of
                    Some b \<Rightarrow>
                      (case get_prop b (js ''error'') of
                         Some e \<Rightarrow>
                           if truthy e
                           then (case toString e of
                                   Some m \<Rightarrow> ApiError m (status r)
                                 | None \<Rightarrow> TypeError)
                           else ApiError (if statusText r \<noteq> [] then statusText r
                                          else js ''API request failed'') (status r)
                       | None \<Rightarrow>
                           ApiError (if statusText r \<noteq> [] then statusText r
                                     else js ''API request failed'') (status r))
                  | None \<Rightarrow>
                      ApiError (if text_result r \<noteq> [] then text_result r
                                else if statusText r \<noteq> [] then statusText r
                                else js ''API request failed'') (status r))
       \<and> (json_result r = Some bdy \<and> get_prop bdy (js ''error'') = Some (JStr msg) \<and> msg \<noteq> []
            \<longrightarrow> postJson env path p = Inl (ApiError msg (status r)))
       \<and> postFormData env upath fd
           = Inl (ApiError (if text_result r \<noteq> [] then text_result r else js ''Upload failed'')
                    (status r))
       \<and> get env gpath = Inl (ApiError (statusText r) (status r))"
proof -
  have a: "postJson env path p = handleResponse (date_now env) r"
    using assms(1) by (simp add: postJson_def)
  have 1: "handleResponse (date_now env) r
           = Inl (case json_result r of
                    Some b \<Rightarrow>
                      (case get_prop b (js ''error'') of
                         Some e \<Rightarrow>
                           if truthy e
                           then (case toString e of
                                   Some m \<Rightarrow> ApiError m (status r)
                                 | None \<Rightarrow> TypeError)
                           else ApiError (if statusText r \<noteq> [] then statusText r
                                          else js ''API request failed'') (status r)
                       | None \<Rightarrow>
                           ApiError (if statusText r \<noteq> [] then statusText r
                                     else js ''API request failed'') (status r))
                  | None \<Rightarrow>
                      ApiError (if text_result r \<noteq> [] then text_result r
                                else if statusText r \<noteq> [] then statusText r
                                else js ''API request failed'') (status r))"
    using assms(2)
    by (simp add: handleResponse_def new_ApiError_def Let_def split: option.splits)
  have 2: "json_result r = Some bdy \<and> get_prop bdy (js ''error'') = Some (JStr msg) \<and> msg \<noteq> []
            \<longrightarrow> handleResponse (date_now env) r = Inl (ApiError msg (status r))"
    by (simp add: 1)
  have 3: "postFormData env upath fd
           = Inl (ApiError (if text_result r \<noteq> [] then text_result r else js ''Upload failed'')
                    (status r))"
    using assms by (simp add: postFormData_def new_ApiError_def)
  have 4: "get env gpath = Inl (ApiError (statusText r) (status r))"
    using assms by (simp add: get_def new_ApiError_def)
  from 1 2 3 4 show ?thesis
    by (simp only: a simp_thms)
qed

theorem failure_messages_witness:
  "(let R = \<lparr>status = 502, statusText = js ''Bad Gateway'',
              headers = [''content-type'' \<mapsto> js ''text/html''],
              json_result = None, text_result = js ''upstream down'',
              blob_result = \<lparr>blob_bytes = [], blob_type = js ''text/html''\<rparr>\<rparr>;
        E = \<lparr>VITE_API_BASE_URL = None, fetch = (\<lambda>q. Inr R), date_now = 0\<rparr>
    in fetch E = (\<lambda>q. Inr R) \<and> \<not> ok R
       \<and> postJson E (js ''/create/content'') JNull = Inl (ApiError (js ''upstream down'') 502)
       \<and> postFormData E (js ''/upload/holidays'') [] = Inl (ApiError (js ''upstream down'') 502)
       \<and> get E (js ''/health'') = Inl (ApiError (js ''Bad Gateway'') 502))
   \<and> (let R = \<lparr>status = 500, statusText = js ''Internal Server Error'',
              headers = [''content-type'' \<mapsto> js ''application/json''],
              json_result = Some (JObj [(js ''error'', JStr (js ''index unavailable''))]),
              text_result = [], blob_result = \<lparr>blob_bytes = [], blob_type = []\<rparr>\<rparr>;
        E = \<lparr>VITE_API_BASE_URL = None, fetch = (\<lambda>q. Inr R), date_now = 0\<rparr>
    in fetch E = (\<lambda>q. Inr R) \<and> \<not> ok R
       \<and> postJson E (js ''/create/content'') JNull = Inl (ApiError (js ''index unavailable'') 500))
   \<and> (let R = \<lparr>status = 500, statusText = js ''Internal Server Error'',
              headers = [''content-type'' \<mapsto> js ''application/json''],
              json_result = Some (JObj [(js ''error'', JObj [(js ''toString'', JNum True (js ''1''))])]),
              text_result = [], blob_result = \<lparr>blob_bytes = [], blob_type = []\<rparr>\<rparr>;
        E = \<lparr>VITE_API_BASE_URL = None, fetch = (\<lambda>q. Inr R), date_now = 0\<rparr>
    in fetch E = (\<lambda>q. Inr R) \<and> \<not> ok R
       \<and> postJson E (js ''/create/content'') JNull = Inl TypeError)"
proof -
  let ?R1 = "\<lparr>status = 502, statusText = js ''Bad Gateway'',
              headers = [''content-type'' \<mapsto> js ''text/html''],
              json_result = None, text_result = js ''upstream down'',
              blob_result = \<lparr>blob_bytes = [], blob_type = js ''text/html''\<rparr>\<rparr>"
  let ?E1 = "\<lparr>VITE_API_BASE_URL = None, fetch = (\<lambda>q. Inr ?R1), date_now = 0\<rparr>"
  let ?R2 = "\<lparr>status = 500, statusText = js ''Internal Server Error'',
              headers = [''content-type'' \<mapsto> js ''application/json''],
              json_result = Some (JObj [(js ''error'', JStr (js ''index unavailable''))]),
              text_result = [], blob_result = \<lparr>blob_bytes = [], blob_type = []\<rparr>\<rparr>"
  let ?E2 = "\<lparr>VITE_API_BASE_URL = None, fetch = (\<lambda>q. Inr ?R2), date_now = 0\<rparr>"
  let ?R3 = "\<lparr>status = 500, statusText = js ''Internal Server Error'',
              headers = [''content-type'' \<mapsto> js ''application/json''],
              json_result = Some (JObj [(js ''error'', JObj [(js ''toString'', JNum True (js ''1''))])]),
              text_result = [], blob_result = \<lparr>blob_bytes = [], blob_type = []\<rparr>\<rparr>"
  let ?E3 = "\<lparr>VITE_API_BASE_URL = None, fetch = (\<lambda>q. Inr ?R3), date_now = 0\<rparr>"
  have f1: "fetch ?E1 = (\<lambda>q. Inr ?R1)" by simp
  have o1: "\<not> ok ?R1" by (simp add: ok_def)
  have t: "js ''upstream down'' \<noteq> []" by (simp add: js_def)
  from failure_messages [where path = "js ''/create/content''" and p = JNull
        and upath = "js ''/upload/holidays''" and fd = "[]" and gpath = "js ''/health''", OF f1 o1]
  have r1: "postJson ?E1 (js ''/create/content'') JNull = Inl (ApiError (js ''upstream down'') 502)
       \<and> postFormData ?E1 (js ''/upload/holidays'') [] = Inl (ApiError (js ''upstream down'') 502)
       \<and> get ?E1 (js ''/health'') = Inl (ApiError (js ''Bad Gateway'') 502)"
    using t by simp
  have f2: "fetch ?E2 = (\<lambda>q. Inr ?R2)" by simp
  have o2: "\<not> ok ?R2" by (simp add: ok_def)
  have n2: "js ''index unavailable'' \<noteq> []" by (simp add: js_def)
  from failure_messages [where path = "js ''/create/content''" and p = JNull
        and bdy = "JObj [(js ''error'', JStr (js ''index unavailable''))]"
        and msg = "js ''index unavailable''", OF f2 o2]
  have r2: "postJson ?E2 (js ''/create/content'') JNull = Inl (ApiError (js ''index unavailable'') 500)"
    using n2 by simp
  have f3: "fetch ?E3 = (\<lambda>q. Inr ?R3)" by simp
  have o3: "\<not> ok ?R3" by (simp add: ok_def)
  from failure_messages [where path = "js ''/create/content''" and p = JNull, OF f3 o3]
  have r3: "postJson ?E3 (js ''/create/content'') JNull = Inl TypeError"
    by simp
  from f1 o1 r1 f2 o2 r2 f3 o3 r3 show ?thesis
    unfolding Let_def by blast
qed

section \<open>Properties of the generation request controllers\<close>

lemma docs_message_nonempty: "docs_message f \<noteq> []"
  by (cases f) (simp_all add: docs_message_def js_def)

lemma topic_message_nonempty: "topic_message f = Some m \<Longrightarrow> m \<noteq> []"
  by (cases f) (auto simp add: topic_message_def js_def)

lemma handleSubmit_begin_if:
  "handleSubmit_begin f c =
     (if trim (topic c) = [] \<and> topic_message f \<noteq> None
      then (c\<lparr>error := topic_message f, lastDownload := None, viewMode := Preview\<rparr>, None)
      else if selectedDocs c = []
      then (c\<lparr>error := Some (docs_message f), lastDownload := None, viewMode := Preview\<rparr>, None)
      else (c\<lparr>error := None, lastDownload := None, viewMode := Preview, loading := True\<rparr>,
            Some (endpoint f, payload f c)))"
proof (cases "topic_message f")
  case None
  then show ?thesis
    by (simp add: handleSubmit_begin_def Let_def)
next
  case (Some m)
  then show ?thesis
    by (simp add: handleSubmit_begin_def Let_def)
qed

lemma handleSubmit_begin_empty_docs:
  "selectedDocs c = [] \<Longrightarrow> snd (handleSubmit_begin f c) = None"
  by (simp add: handleSubmit_begin_if)

lemma handleSubmit_begin_Some:
  assumes "snd (handleSubmit_begin f c) = Some call"
  shows "fst (handleSubmit_begin f c)
           = c\<lparr>error := None, lastDownload := None, viewMode := Preview, loading := True\<rparr>
         \<and> call = (endpoint f, payload f c) \<and> selectedDocs c \<noteq> []"
proof -
  have a: "\<not> (trim (topic c) = [] \<and> topic_message f \<noteq> None)"
    using assms by (auto simp add: handleSubmit_begin_if split: if_splits)
  have b: "selectedDocs c \<noteq> []"
    using assms by (auto simp add: handleSubmit_begin_if split: if_splits)
  have "handleSubmit_begin f c
          = (c\<lparr>error := None, lastDownload := None, viewMode := Preview, loading := True\<rparr>,
             Some (endpoint f, payload f c))"
    by (simp only: handleSubmit_begin_if a b if_False)
  with assms b show ?thesis
    by simp
qed


lemma handleSubmit_begin_None:
  assumes "snd (handleSubmit_begin f c) = None"
  shows "\<exists>m. m \<noteq> []
           \<and> fst (handleSubmit_begin f c) = c\<lparr>error := Some m, lastDownload := None, viewMode := Preview\<rparr>"
proof (cases "trim (topic c) = [] \<and> topic_message f \<noteq> None")
  case True
  then obtain m where m: "topic_message f = Some m"
    by blast
  then have "m \<noteq> []"
    by (rule topic_message_nonempty)
  with True m show ?thesis
    by (intro exI [of _ m]) (simp add: handleSubmit_begin_if)
next
  case False
  with assms have d: "selectedDocs c = []"
    by (simp add: handleSubmit_begin_if split: if_splits)
  have "handleSubmit_begin f c
          = (c\<lparr>error := Some (docs_message f), lastDownload := None, viewMode := Preview\<rparr>, None)"
    by (simp only: handleSubmit_begin_if False d if_False if_True refl)
  then show ?thesis
    using docs_message_nonempty [of f] by (intro exI [of _ "docs_message f"]) simp
qed

lemma step_Submit_None:
  "snd (handleSubmit_begin f (ctrl s)) = None
     \<Longrightarrow> step f s Submit = s\<lparr>ctrl := fst (handleSubmit_begin f (ctrl s))\<rparr>"
  by (cases "handleSubmit_begin f (ctrl s)") (simp add: step_def)

lemma step_Submit_Some:
  "snd (handleSubmit_begin f (ctrl s)) = Some call
     \<Longrightarrow> step f s Submit
         = s\<lparr>ctrl := fst (handleSubmit_begin f (ctrl s)), posted := posted s @ [call]\<rparr>"
  by (cases "handleSubmit_begin f (ctrl s)") (simp add: step_def)

lemma step_Settle:
  "step f s (Settle k outcome)
     = s\<lparr>page := fst (handleSubmit_settle f outcome (page s, ctrl s)),
          ctrl := snd (handleSubmit_settle f outcome (page s, ctrl s))\<rparr>"
  by (simp add: step_def split: prod.splits)

lemma handleSubmit_settle_Inl:
  "handleSubmit_settle f (Inl e) (h, c)
     = (h, c\<lparr>error := Some (message_or e (failure_message f)), loading := False\<rparr>)"
  by (simp add: handleSubmit_settle_def)

lemma handleSubmit_settle_json:
  "handleSubmit_settle f (Inr (JsonResponse d r)) (h, c) = (h, c\<lparr>result := d, loading := False\<rparr>)"
  by (simp add: handleSubmit_settle_def)

lemma handleSubmit_settle_file_failed:
  "downloadFromApi h (FileResponse b fn mt r) = (h', Inl e)
     \<Longrightarrow> handleSubmit_settle f (Inr (FileResponse b fn mt r)) (h, c)
         = (h', c\<lparr>error := Some (message_or e (failure_message f)), loading := False\<rparr>)"
  by (simp add: handleSubmit_settle_def)

lemma handleSubmit_settle_file_saved:
  "downloadFromApi h (FileResponse b fn mt r) = (h', Inr v)
     \<Longrightarrow> handleSubmit_settle f (Inr (FileResponse b fn mt r)) (h, c)
         = (h', c\<lparr>lastDownload := Some fn, result := JNull, loading := False\<rparr>)"
  by (simp add: handleSubmit_settle_def)

lemma downloadFromApi_json: "downloadFromApi h (JsonResponse d r) = (h, Inr (Some d))"
  by (simp add: downloadFromApi_def)

text \<open>
  Claim C3. For each of the three controllers, submitting a form whose selected-document
  list is empty makes no call to the gateway (\<open>handleSubmit\<close> returns before
  \<open>postJson\<close>, so the list of calls made is unchanged), leaves the page and the loading
  flag alone, and ends with a non-empty validation message in \<open>error\<close>.
\<close>

theorem empty_selection_fails_locally:
  assumes "selectedDocs (ctrl s) = []"
  shows "snd (handleSubmit_begin f (ctrl s)) = None
       \<and> posted (step f s Submit) = posted s
       \<and> page (step f s Submit) = page s
       \<and> loading (ctrl (step f s Submit)) = loading (ctrl s)
       \<and> (\<exists>m. m \<noteq> [] \<and> error (ctrl (step f s Submit)) = Some m)"
proof -
  have n: "snd (handleSubmit_begin f (ctrl s)) = None"
    using assms by (rule handleSubmit_begin_empty_docs)
  then have st: "step f s Submit = s\<lparr>ctrl := fst (handleSubmit_begin f (ctrl s))\<rparr>"
    by (rule step_Submit_None)
  from handleSubmit_begin_None [OF n] obtain m where m: "m \<noteq> []"
    and c: "fst (handleSubmit_begin f (ctrl s))
              = (ctrl s)\<lparr>error := Some m, lastDownload := None, viewMode := Preview\<rparr>"
    by blast
  from n m show ?thesis
    by (simp add: st c)
qed

theorem empty_selection_fails_locally_witness:
  "(let s = \<lparr>page = fresh_browser 0 None,
              ctrl = initial_controller LessonPlan (js ''English'') (js ''Corporate''),
              posted = []\<rparr>
    in selectedDocs (ctrl s) = []
       \<and> posted (step LessonPlan s Submit) = []
       \<and> (\<exists>m. m \<noteq> [] \<and> error (ctrl (step LessonPlan s Submit)) = Some m))"
proof -
  let ?s = "\<lparr>page = fresh_browser 0 None,
              ctrl = initial_controller LessonPlan (js ''English'') (js ''Corporate''),
              posted = []\<rparr>"
  have d: "selectedDocs (ctrl ?s) = []"
    by (simp add: initial_controller_def)
  from empty_selection_fails_locally [OF d, of LessonPlan] d show ?thesis
    unfolding Let_def by simp
qed

text \<open>
  Claim C4, as stated, fails: no path of \<open>handleSubmit\<close> clears \<open>result\<close> when a
  submission fails. After a successful submission and then a failed one the controller
  holds the error message and still holds the earlier payload.
\<close>

theorem stale_result_beside_error:
  "(let s = \<lparr>page = fresh_browser 0 None,
              ctrl = (initial_controller Assessment (js ''English'') (js ''Corporate''))
                       \<lparr>selectedDocs := [js ''guide.pdf'']\<rparr>,
              posted = []\<rparr>;
        r = \<lparr>status = 200, statusText = js ''OK'',
              headers = [''content-type'' \<mapsto> js ''application/json''],
              json_result = Some (JObj [(js ''english_answer'', JStr (js ''Q1''))]),
              text_result = [], blob_result = \<lparr>blob_bytes = [], blob_type = []\<rparr>\<rparr>;
        fin = run Assessment s
                [Submit, Settle 0 (Inr (JsonResponse (JObj [(js ''english_answer'', JStr (js ''Q1''))]) r)),
                 Submit, Settle 1 (Inl (ErrorObject (js ''API request failed'')))]
    in error (ctrl fin) = Some (js ''API request failed'')
       \<and> result (ctrl fin) = JObj [(js ''english_answer'', JStr (js ''Q1''))])"
  by (simp add: Let_def run_def step_def handleSubmit_begin_if handleSubmit_settle_def
      initial_controller_def topic_message_def message_or_def)

lemma message_or_empty:
  "message_or e (failure_message f) = [] \<longleftrightarrow> e = ErrorObject []"
  by (cases e; cases f) (simp_all add: message_or_def failure_message_def js_def)

text \<open>
  Claim C4, amended. Whenever a submission fails, the structured result the controller
  held before is left as it was, and \<open>error\<close> is set: after a local validation
  failure to a non-empty validation message; after a remote failure, or a failure
  while the download is triggered, to the message of the thrown \<open>Error\<close>, or to the
  feature's fallback text when the thrown value is not an \<open>Error\<close>. That text is empty
  exactly when the thrown \<open>Error\<close> has an empty message, and then the component, which
  renders \<open>{error ? <Alert> : null}\<close>, shows no alert.
\<close>

theorem failed_submission_keeps_result:
  assumes "(ev = Submit \<and> snd (handleSubmit_begin f (ctrl s)) = None)
         \<or> (\<exists>k e. ev = Settle k (Inl e))
         \<or> (\<exists>k resp e. ev = Settle k (Inr resp) \<and> snd (downloadFromApi (page s) resp) = Inl e)"
  shows "result (ctrl (step f s ev)) = result (ctrl s)
       \<and> (ev = Submit \<longrightarrow> (\<exists>m. m \<noteq> [] \<and> error (ctrl (step f s ev)) = Some m))
       \<and> (\<forall>k e. ev = Settle k (Inl e)
              \<longrightarrow> error (ctrl (step f s ev)) = Some (message_or e (failure_message f)))
       \<and> (\<forall>k resp e. ev = Settle k (Inr resp) \<and> snd (downloadFromApi (page s) resp) = Inl e
              \<longrightarrow> error (ctrl (step f s ev)) = Some (message_or e (failure_message f)))
       \<and> (\<forall>e. message_or e (failure_message f) = [] \<longleftrightarrow> e = ErrorObject [])"
  using assms
proof (elim disjE exE conjE)
  assume ev: "ev = Submit" and n: "snd (handleSubmit_begin f (ctrl s)) = None"
  from handleSubmit_begin_None [OF n] obtain m where "m \<noteq> []" and
    "fst (handleSubmit_begin f (ctrl s))
       = (ctrl s)\<lparr>error := Some m, lastDownload := None, viewMode := Preview\<rparr>"
    by blast
  then show ?thesis
    by (simp add: ev step_Submit_None [OF n] message_or_empty)
next
  fix k e
  assume "ev = Settle k (Inl e)"
  then show ?thesis
    by (simp add: step_Settle handleSubmit_settle_Inl message_or_empty)
next
  fix k resp e
  assume ev: "ev = Settle k (Inr resp)"
    and dl: "snd (downloadFromApi (page s) resp) = Inl e"
  show ?thesis
  proof (cases resp)
    case (JsonResponse d r)
    with dl show ?thesis
      by (simp add: downloadFromApi_json)
  next
    case (FileResponse b fn mt r)
    with dl have "downloadFromApi (page s) (FileResponse b fn mt r)
                    = (fst (downloadFromApi (page s) (FileResponse b fn mt r)), Inl e)"
      by (simp add: prod_eq_iff)
    from handleSubmit_settle_file_failed [OF this] dl show ?thesis
      by (simp add: ev FileResponse step_Settle message_or_empty)
  qed
qed

theorem failed_submission_keeps_result_witness:
  "(let s = \<lparr>page = fresh_browser 0 None,
              ctrl = (initial_controller Content (js ''English'') (js ''Corporate''))
                       \<lparr>result := JObj [(js ''english_answer'', JStr (js ''Handout''))]\<rparr>,
              posted = []\<rparr>
    in snd (handleSubmit_begin Content (ctrl s)) = None
       \<and> (\<exists>m. m \<noteq> [] \<and> error (ctrl (step Content s Submit)) = Some m)
       \<and> result (ctrl (step Content s Submit)) = JObj [(js ''english_answer'', JStr (js ''Handout''))]
       \<and> error (ctrl (step Content s (Settle 0 (Inl (ErrorObject (js ''busy'')))))) = Some (js ''busy'')
       \<and> error (ctrl (step Content s (Settle 0 (Inl (ErrorObject []))))) = Some []
       \<and> result (ctrl (step Content s (Settle 0 (Inl (ErrorObject [])))))
           = JObj [(js ''english_answer'', JStr (js ''Handout''))])"
proof -
  let ?s = "\<lparr>page = fresh_browser 0 None,
              ctrl = (initial_controller Content (js ''English'') (js ''Corporate''))
                       \<lparr>result := JObj [(js ''english_answer'', JStr (js ''Handout''))]\<rparr>,
              posted = []\<rparr>"
  have n: "snd (handleSubmit_begin Content (ctrl ?s)) = None"
    by (rule handleSubmit_begin_empty_docs) (simp add: initial_controller_def)
  then have h1: "(Submit = Submit \<and> snd (handleSubmit_begin Content (ctrl ?s)) = None)
         \<or> (\<exists>k e. Submit = Settle k (Inl e))
         \<or> (\<exists>k resp e. Submit = Settle k (Inr resp) \<and> snd (downloadFromApi (page ?s) resp) = Inl e)"
    by blast
  have h2: "(Settle 0 (Inl (ErrorObject (js ''busy''))) = Submit
              \<and> snd (handleSubmit_begin Content (ctrl ?s)) = None)
         \<or> (\<exists>k e. Settle 0 (Inl (ErrorObject (js ''busy''))) = Settle k (Inl e))
         \<or> (\<exists>k resp e. Settle 0 (Inl (ErrorObject (js ''busy''))) = Settle k (Inr resp)
                \<and> snd (downloadFromApi (page ?s) resp) = Inl e)"
    by blast
  have h3: "(Settle 0 (Inl (ErrorObject [])) = Submit
              \<and> snd (handleSubmit_begin Content (ctrl ?s)) = None)
         \<or> (\<exists>k e. Settle 0 (Inl (ErrorObject [])) = Settle k (Inl e))
         \<or> (\<exists>k resp e. Settle 0 (Inl (ErrorObject [])) = Settle k (Inr resp)
                \<and> snd (downloadFromApi (page ?s) resp) = Inl e)"
    by blast
  have m: "message_or (ErrorObject (js ''busy'')) (failure_message Content) = js ''busy''"
        "message_or (ErrorObject []) (failure_message Content) = []"
    by (simp_all add: message_or_def)
  have r: "result (ctrl ?s) = JObj [(js ''english_answer'', JStr (js ''Handout''))]"
    by (simp add: initial_controller_def)
  have a: "(\<exists>m. m \<noteq> [] \<and> error (ctrl (step Content ?s Submit)) = Some m)
          \<and> result (ctrl (step Content ?s Submit)) = result (ctrl ?s)"
    using failed_submission_keeps_result [OF h1] by blast
  have b: "error (ctrl (step Content ?s (Settle 0 (Inl (ErrorObject (js ''busy''))))))
             = Some (message_or (ErrorObject (js ''busy'')) (failure_message Content))"
    using failed_submission_keeps_result [OF h2] by blast
  have c: "error (ctrl (step Content ?s (Settle 0 (Inl (ErrorObject [])))))
             = Some (message_or (ErrorObject []) (failure_message Content))
          \<and> result (ctrl (step Content ?s (Settle 0 (Inl (ErrorObject []))))) = result (ctrl ?s)"
    using failed_submission_keeps_result [OF h3] by blast
  from n a b c show ?thesis
    unfolding Let_def by (simp only: m r simp_thms)
qed

lemma handleSubmit_settle_loading:
  "loading (snd (handleSubmit_settle f outcome (h, c))) = False"
proof (cases outcome)
  case (Inl e)
  then show ?thesis by (simp add: handleSubmit_settle_Inl)
next
  case (Inr resp)
  show ?thesis
  proof (cases resp)
    case (JsonResponse d r)
    with Inr show ?thesis by (simp add: handleSubmit_settle_json)
  next
    case (FileResponse b fn mt r)
    show ?thesis
    proof (cases "snd (downloadFromApi h (FileResponse b fn mt r))")
      case (Inl e)
      then have "downloadFromApi h (FileResponse b fn mt r)
                   = (fst (downloadFromApi h (FileResponse b fn mt r)), Inl e)"
        by (simp add: prod_eq_iff)
      from handleSubmit_settle_file_failed [OF this] Inr FileResponse show ?thesis by simp
    next
      case (Inr v)
      then have "downloadFromApi h (FileResponse b fn mt r)
                   = (fst (downloadFromApi h (FileResponse b fn mt r)), Inr v)"
        by (simp add: prod_eq_iff)
      from handleSubmit_settle_file_saved [OF this] \<open>outcome = Inr resp\<close> FileResponse
      show ?thesis by simp
    qed
  qed
qed

lemma run_Cons: "run f s (ev # evs) = run f (step f s ev) evs"
  by (simp add: run_def)

lemma ui_run_invariant:
  assumes "(\<not> loading (ctrl s) \<and> pend = [])
         \<or> (loading (ctrl s) \<and> posted s \<noteq> [] \<and> pend = [length (posted s) - 1])"
      and "ui_run f s pend evs = Some (s', pend')"
  shows "settles_latest f s evs \<and> s' = run f s evs
       \<and> ((\<not> loading (ctrl s') \<and> pend' = [])
          \<or> (loading (ctrl s') \<and> posted s' \<noteq> [] \<and> pend' = [length (posted s') - 1]))"
  using assms
proof (induction evs arbitrary: s pend)
  case Nil
  then show ?case by (simp add: run_def)
next
  case (Cons ev evs)
  show ?case
  proof (cases ev)
    case Submit
    with Cons.prems(2) have idle: "\<not> loading (ctrl s)"
      by (simp add: submit_disabled_def split: if_splits)
    with Cons.prems(1) have pend: "pend = []" by blast
    show ?thesis
    proof (cases "snd (handleSubmit_begin f (ctrl s))")
      case None
      from handleSubmit_begin_None [OF None] obtain m where
        c: "fst (handleSubmit_begin f (ctrl s))
              = (ctrl s)\<lparr>error := Some m, lastDownload := None, viewMode := Preview\<rparr>"
        by blast
      have st: "step f s Submit = s\<lparr>ctrl := fst (handleSubmit_begin f (ctrl s))\<rparr>"
        using None by (rule step_Submit_None)
      have inv: "(\<not> loading (ctrl (step f s Submit)) \<and> pend = [])
               \<or> (loading (ctrl (step f s Submit)) \<and> posted (step f s Submit) \<noteq> []
                  \<and> pend = [length (posted (step f s Submit)) - 1])"
        using idle pend by (simp add: st c)
      have r: "ui_run f (step f s Submit) pend evs = Some (s', pend')"
        using Cons.prems(2) Submit None idle by (simp add: submit_disabled_def)
      from Cons.IH [OF inv r] Submit show ?thesis
        by (auto simp add: run_Cons)
    next
      case (Some call)
      from handleSubmit_begin_Some [OF Some] have
        c: "fst (handleSubmit_begin f (ctrl s))
              = (ctrl s)\<lparr>error := None, lastDownload := None, viewMode := Preview, loading := True\<rparr>"
        by blast
      have st: "step f s Submit
                  = s\<lparr>ctrl := fst (handleSubmit_begin f (ctrl s)), posted := posted s @ [call]\<rparr>"
        using Some by (rule step_Submit_Some)
      have inv: "(\<not> loading (ctrl (step f s Submit)) \<and> pend @ [length (posted s)] = [])
               \<or> (loading (ctrl (step f s Submit)) \<and> posted (step f s Submit) \<noteq> []
                  \<and> pend @ [length (posted s)] = [length (posted (step f s Submit)) - 1])"
        using pend by (simp add: st c)
      have r: "ui_run f (step f s Submit) (pend @ [length (posted s)]) evs = Some (s', pend')"
        using Cons.prems(2) Submit Some idle by (simp add: submit_disabled_def)
      from Cons.IH [OF inv r] Submit show ?thesis
        by (auto simp add: run_Cons)
    qed
  next
    case (Settle k outcome)
    with Cons.prems(2) have k: "k \<in> set pend"
      by (simp split: if_splits)
    with Cons.prems(1) have busy: "posted s \<noteq> []" and pend: "pend = [length (posted s) - 1]"
      by auto
    from k pend have kk: "Suc k = length (posted s)"
      using busy by simp
    have inv: "(\<not> loading (ctrl (step f s (Settle k outcome))) \<and> remove1 k pend = [])
             \<or> (loading (ctrl (step f s (Settle k outcome)))
                \<and> posted (step f s (Settle k outcome)) \<noteq> []
                \<and> remove1 k pend = [length (posted (step f s (Settle k outcome))) - 1])"
      using k pend by (simp add: step_Settle handleSubmit_settle_loading)
    have r: "ui_run f (step f s (Settle k outcome)) (remove1 k pend) evs = Some (s', pend')"
      using Cons.prems(2) Settle k by simp
    from Cons.IH [OF inv r] Settle kk show ?thesis
      by (auto simp add: run_Cons)
  next
    case (Edit g)
    have inv: "(\<not> loading (ctrl (step f s (Edit g))) \<and> pend = [])
             \<or> (loading (ctrl (step f s (Edit g))) \<and> posted (step f s (Edit g)) \<noteq> []
                \<and> pend = [length (posted (step f s (Edit g))) - 1])"
      using Cons.prems(1) by (simp add: step_def edit_form_def)
    have r: "ui_run f (step f s (Edit g)) pend evs = Some (s', pend')"
      using Cons.prems(2) Edit by simp
    from Cons.IH [OF inv r] Edit show ?thesis
      by (auto simp add: run_Cons)
  next
    case (View m)
    have inv: "(\<not> loading (ctrl (step f s (View m))) \<and> pend = [])
             \<or> (loading (ctrl (step f s (View m))) \<and> posted (step f s (View m)) \<noteq> []
                \<and> pend = [length (posted (step f s (View m))) - 1])"
      using Cons.prems(1) by (simp add: step_def)
    have r: "ui_run f (step f s (View m)) pend evs = Some (s', pend')"
      using Cons.prems(2) View by (simp split: if_splits)
    from Cons.IH [OF inv r] View show ?thesis
      by (auto simp add: run_Cons)
  qed
qed

text \<open>
  Claim C2, as stated, fails for the handler: \<open>handleSubmit\<close> applies a response when it
  settles and compares no sequence number. When two invocations overlap and the first
  call settles after the second, the controller ends with the first call's payload.
\<close>

theorem overlapping_submissions_last_settled_wins:
  "(let s = \<lparr>page = fresh_browser 0 None,
              ctrl = (initial_controller Assessment (js ''English'') (js ''Corporate''))
                       \<lparr>selectedDocs := [js ''guide.pdf'']\<rparr>,
              posted = []\<rparr>;
        r = \<lparr>status = 200, statusText = js ''OK'',
              headers = [''content-type'' \<mapsto> js ''application/json''],
              json_result = None, text_result = [],
              blob_result = \<lparr>blob_bytes = [], blob_type = []\<rparr>\<rparr>;
        fin = run Assessment s
                [Submit, Submit,
                 Settle 1 (Inr (JsonResponse (JStr (js ''second'')) r)),
                 Settle 0 (Inr (JsonResponse (JStr (js ''first'')) r))]
    in length (posted fin) = 2 \<and> result (ctrl fin) = JStr (js ''first''))"
  by (simp add: Let_def run_def step_def handleSubmit_begin_if handleSubmit_settle_def
      initial_controller_def topic_message_def)

text \<open>
  Claim C2, amended. The controllers keep order by a gate, not by sequence numbers:
  the submit button is disabled while a call is in flight. In every run driven through
  the form from an idle controller, each response that settles answers the call made
  last, so two submissions never settle out of order. The handler itself writes the
  state from the response that settles, whichever call it answers.
\<close>

theorem responses_settle_in_order_under_gate:
  assumes "\<not> loading (ctrl s)"
      and "ui_run f s [] evs = Some (s', pend')"
  shows "settles_latest f s evs \<and> s' = run f s evs
       \<and> result (ctrl (step f s0 (Settle k (Inr (JsonResponse d r))))) = d"
proof -
  from assms(1) have "(\<not> loading (ctrl s) \<and> [] = ([]::nat list))
         \<or> (loading (ctrl s) \<and> posted s \<noteq> [] \<and> [] = [length (posted s) - 1])"
    by simp
  from ui_run_invariant [OF this assms(2)] show ?thesis
    by (simp add: step_Settle handleSubmit_settle_json)
qed

theorem responses_settle_in_order_under_gate_witness:
  "(let s = \<lparr>page = fresh_browser 0 None,
              ctrl = (initial_controller Assessment (js ''English'') (js ''Corporate''))
                       \<lparr>selectedDocs := [js ''guide.pdf'']\<rparr>,
              posted = []\<rparr>;
        r = \<lparr>status = 200, statusText = js ''OK'',
              headers = [''content-type'' \<mapsto> js ''application/json''],
              json_result = None, text_result = [],
              blob_result = \<lparr>blob_bytes = [], blob_type = []\<rparr>\<rparr>;
        evs = [Submit, Settle 0 (Inr (JsonResponse (JStr (js ''first'')) r)),
               Edit (\<lambda>c. c\<lparr>format := Fmt_pdf\<rparr>), View Json_view,
               Submit, Settle 1 (Inr (JsonResponse (JStr (js ''second'')) r))]
    in \<not> loading (ctrl s)
       \<and> ui_run Assessment s [] evs = Some (run Assessment s evs, [])
       \<and> settles_latest Assessment s evs
       \<and> result (ctrl (run Assessment s evs)) = JStr (js ''second'')
       \<and> ui_run Assessment s []
            [Submit, Submit,
             Settle 1 (Inr (JsonResponse (JStr (js ''second'')) r)),
             Settle 0 (Inr (JsonResponse (JStr (js ''first'')) r))] = None)"
proof -
  let ?s = "\<lparr>page = fresh_browser 0 None,
              ctrl = (initial_controller Assessment (js ''English'') (js ''Corporate''))
                       \<lparr>selectedDocs := [js ''guide.pdf'']\<rparr>,
              posted = []\<rparr>"
  let ?r = "\<lparr>status = 200, statusText = js ''OK'',
              headers = [''content-type'' \<mapsto> js ''application/json''],
              json_result = None, text_result = [],
              blob_result = \<lparr>blob_bytes = [], blob_type = []\<rparr>\<rparr>"
  let ?evs = "[Submit, Settle 0 (Inr (JsonResponse (JStr (js ''first'')) ?r)),
               Edit (\<lambda>c. c\<lparr>format := Fmt_pdf\<rparr>), View Json_view,
               Submit, Settle 1 (Inr (JsonResponse (JStr (js ''second'')) ?r))]"
  have i: "\<not> loading (ctrl ?s)"
    by (simp add: initial_controller_def)
  have u: "ui_run Assessment ?s [] ?evs = Some (run Assessment ?s ?evs, [])"
    by (simp add: run_def step_def handleSubmit_begin_if handleSubmit_settle_def edit_form_def
        initial_controller_def topic_message_def submit_disabled_def js_def)
  have v: "result (ctrl (run Assessment ?s ?evs)) = JStr (js ''second'')"
    by (simp add: run_def step_def handleSubmit_begin_if handleSubmit_settle_def edit_form_def
        initial_controller_def topic_message_def)
  have w: "ui_run Assessment ?s []
            [Submit, Submit,
             Settle 1 (Inr (JsonResponse (JStr (js ''second'')) ?r)),
             Settle 0 (Inr (JsonResponse (JStr (js ''first'')) ?r))] = None"
    by (simp add: step_def handleSubmit_begin_if initial_controller_def topic_message_def
        submit_disabled_def)
  from responses_settle_in_order_under_gate [OF i u] i u v w show ?thesis
    unfolding Let_def by blast
qed

section \<open>Properties of the configuration status tracker\<close>

lemma handleUpload_settle_failure:
  "snd (handleUpload_settle te t (Inl e) (p, ds)) = ds"
  by (simp add: handleUpload_settle_def)

lemma handleUpload_settle_success:
  "snd (handleUpload_settle te t (Inr answer) (p, ds)) = handleStatusChange (only_true t) ds"
  by (simp add: handleUpload_settle_def split: sum.splits)

lemma status_of_only_true:
  "status_of u (handleStatusChange (only_true t) ds) = (u = t \<or> status_of u ds)"
  by (cases u; cases t) (simp_all add: status_of_def handleStatusChange_def only_true_def)

lemma handleUpload_settle_keeps:
  "status_of u (snd pd) \<Longrightarrow> status_of u (snd (handleUpload_settle te t outcome pd))"
  by (cases pd; cases outcome)
     (simp_all add: handleUpload_settle_failure handleUpload_settle_success status_of_only_true)

lemma settle_uploads_keeps:
  "status_of u (snd pd) \<Longrightarrow> status_of u (snd (settle_uploads te us pd))"
proof (induction us arbitrary: pd)
  case Nil
  then show ?case by (simp add: settle_uploads_def)
next
  case (Cons x us)
  from Cons.prems have "status_of u (snd (handleUpload_settle te (fst x) (snd x) pd))"
    by (rule handleUpload_settle_keeps)
  from Cons.IH [OF this] show ?case
    by (simp add: settle_uploads_def)
qed

text \<open>
  Claim C7, as stated, fails in its last part: the readiness flags are also written by
  \<open>initialise\<close>, from the answer of \<open>/health\<close>. When an upload succeeds before
  \<open>Promise.all\<close> settles and the health answer was computed before the upload, the flag
  the upload set goes back to false.
\<close>

theorem late_health_answer_resets_readiness:
  "(let ds = snd (handleUpload_settle (\<lambda>c. ErrorObject (js ''TypeError'')) Courses
                    (Inr (JObj [(js ''courses_loaded'', JNum True (js ''12''))]))
                    (\<lparr>uploading = (\<lambda>t. t = Courses), panel_message = None, panel_error = None\<rparr>,
                     dataStatus initial_app));
        a = initialise_loaded
              (Inr (Some [js ''guide.pdf''],
                    Some \<lparr>courses_loaded = 0, states_with_holidays = 0, guidelines_loaded = False\<rparr>))
              (initial_app\<lparr>dataStatus := ds\<rparr>)
    in courses ds \<and> \<not> courses (dataStatus a))"
  by (simp add: Let_def handleUpload_settle_success handleStatusChange_def
      only_true_def initial_app_def initialise_loaded_def)

text \<open>
  Claim C7, amended. For every upload type: a successful upload sets that type's
  readiness flag and changes neither another flag nor the document count; a failed
  upload changes nothing in the status; and through any sequence of upload outcomes a
  flag that is true stays true. (The flags are otherwise written only by the start-up
  health synchronisation.)
\<close>

theorem uploads_only_set_readiness:
  "status_of t (snd (handleUpload_settle te t (Inr answer) (p, ds)))
   \<and> (\<forall>u. u \<noteq> t \<longrightarrow> status_of u (snd (handleUpload_settle te t (Inr answer) (p, ds))) = status_of u ds)
   \<and> documentCount (snd (handleUpload_settle te t (Inr answer) (p, ds))) = documentCount ds
   \<and> snd (handleUpload_settle te t (Inl e) (p, ds)) = ds
   \<and> (\<forall>u. status_of u ds \<longrightarrow> status_of u (snd (settle_uploads te us (p, ds))))"
proof -
  have 1: "status_of t (snd (handleUpload_settle te t (Inr answer) (p, ds)))"
    by (simp add: handleUpload_settle_success status_of_only_true)
  have 2: "\<forall>u. u \<noteq> t \<longrightarrow> status_of u (snd (handleUpload_settle te t (Inr answer) (p, ds))) = status_of u ds"
    by (simp add: handleUpload_settle_success status_of_only_true)
  have 3: "documentCount (snd (handleUpload_settle te t (Inr answer) (p, ds))) = documentCount ds"
    by (simp add: handleUpload_settle_success handleStatusChange_def only_true_def)
  have 4: "snd (handleUpload_settle te t (Inl e) (p, ds)) = ds"
    by (rule handleUpload_settle_failure)
  have 5: "\<forall>u. status_of u ds \<longrightarrow> status_of u (snd (settle_uploads te us (p, ds)))"
    using settle_uploads_keeps [of _ "(p, ds)" te us] by simp
  from 1 2 3 4 5 show ?thesis by blast
qed

theorem uploads_only_set_readiness_witness:
  "(let p = \<lparr>uploading = (\<lambda>t. False), panel_message = None, panel_error = None\<rparr>;
        ds = \<lparr>courses = True, holidays = False, guidelines = False, documentCount = 3\<rparr>;
        ds' = snd (settle_uploads (\<lambda>c. ErrorObject (js ''TypeError''))
                     [(Holidays, Inl (ErrorObject (js ''Upload failed''))),
                      (Guidelines, Inr (JObj [(js ''guidelines_length'', JNum True (js ''120''))])),
                      (Courses, Inl OtherValue)]
                     (p, ds))
    in status_of Courses ds \<and> status_of Courses ds'
       \<and> Holidays \<noteq> Guidelines
       \<and> status_of Holidays
            (snd (handleUpload_settle (\<lambda>c. ErrorObject (js ''TypeError'')) Guidelines
                    (Inr (JObj [(js ''guidelines_length'', JNum True (js ''120''))])) (p, ds)))
          = status_of Holidays ds
       \<and> status_of Guidelines
            (snd (handleUpload_settle (\<lambda>c. ErrorObject (js ''TypeError'')) Guidelines
                    (Inr (JObj [(js ''guidelines_length'', JNum True (js ''120''))])) (p, ds))))"
proof -
  let ?p = "\<lparr>uploading = (\<lambda>t. False), panel_message = None, panel_error = None\<rparr>"
  let ?ds = "\<lparr>courses = True, holidays = False, guidelines = False, documentCount = 3\<rparr>"
  let ?us = "[(Holidays, Inl (ErrorObject (js ''Upload failed''))),
              (Guidelines, Inr (JObj [(js ''guidelines_length'', JNum True (js ''120''))])),
              (Courses, Inl OtherValue)]"
  note T = uploads_only_set_readiness
             [of Guidelines "\<lambda>c. ErrorObject (js ''TypeError'')"
                 "JObj [(js ''guidelines_length'', JNum True (js ''120''))]" ?p ?ds
                 undefined ?us]
  have c: "status_of Courses ?ds"
    by (simp add: status_of_def)
  have n: "Holidays \<noteq> Guidelines"
    by simp
  from T c have a: "status_of Courses
            (snd (settle_uploads (\<lambda>c. ErrorObject (js ''TypeError'')) ?us (?p, ?ds)))"
    by blast
  from T n have b: "status_of Holidays
            (snd (handleUpload_settle (\<lambda>c. ErrorObject (js ''TypeError'')) Guidelines
                    (Inr (JObj [(js ''guidelines_length'', JNum True (js ''120''))])) (?p, ?ds)))
          = status_of Holidays ?ds"
    by blast
  from T have d: "status_of Guidelines
            (snd (handleUpload_settle (\<lambda>c. ErrorObject (js ''TypeError'')) Guidelines
                    (Inr (JObj [(js ''guidelines_length'', JNum True (js ''120''))])) (?p, ?ds)))"
    by blast
  from a b c d n show ?thesis
    unfolding Let_def by blast
qed

section \<open>Properties of the download trigger\<close>

lemma downloadFromApi_revokes:
  assumes "click_throws h = None"
  shows "snd (downloadFromApi h (FileResponse b fn mt r)) = Inr None
       \<and> next_url h \<notin> fst ` set (object_urls (fst (downloadFromApi h (FileResponse b fn mt r))))"
  using assms
  by (auto simp add: downloadFromApi_def createObjectURL_def appendChild_def click_def
      removeChild_def revokeObjectURL_def Let_def)

text \<open>
  Claim C8. The object URL that the download trigger allocates should be revoked on
  every exit path, also when triggering the save throws. The code revokes it only on
  the path where \<open>link.click()\<close> returns: \<open>revokeObjectURL\<close> is an ordinary statement after
  the click, not a \<open>finally\<close> clause. When the click throws, the call ends with the URL
  still alive and the anchor still attached to the body.
\<close>

theorem downloadFromApi_leaks_url_when_click_throws:
  "(let out = downloadFromApi (fresh_browser 0 (Some (ErrorObject (js ''click failed''))))
                (FileResponse \<lparr>blob_bytes = [37, 80, 68, 70], blob_type = js ''application/pdf''\<rparr>
                   (js ''plan.pdf'') (js ''application/pdf'')
                   \<lparr>status = 200, statusText = js ''OK'',
                    headers = [''content-type'' \<mapsto> js ''application/pdf''],
                    json_result = None, text_result = js ''%PDF'',
                    blob_result = \<lparr>blob_bytes = [37, 80, 68, 70],
                                   blob_type = js ''application/pdf''\<rparr>\<rparr>)
    in snd out = Inl (ErrorObject (js ''click failed''))
       \<and> object_urls (fst out)
           = [(0, \<lparr>blob_bytes = [37, 80, 68, 70], blob_type = js ''application/pdf''\<rparr>)]
       \<and> body_children (fst out) = [\<lparr>href = 0, download = js ''plan.pdf''\<rparr>]
       \<and> saved (fst out) = [])"
  by (simp add: Let_def downloadFromApi_def fresh_browser_def createObjectURL_def
      appendChild_def click_def js_def)

section \<open>Properties of the location resolver\<close>

text \<open>
  Claim C9. After the IP-based lookup has succeeded with a suggestion \<open>d\<close>, a refusal of
  the browser's geolocation permission sets \<open>geolocationDenied\<close> and leaves the stored
  suggestion, its provenance \<open>Ip\<close> and the suggested state derived from it unchanged.
  The witness is the scenario with the state \<open>Maharashtra\<close>.
\<close>

theorem permission_denied_keeps_ip_suggestion:
  "(let a1 = fetchLocation_settle None (Inr (JsonResponse d r)) a;
        a2 = geolocation_error PERMISSION_DENIED a1
    in location a1 = d \<and> locationSource a1 = Ip
       \<and> geolocationDenied a2 \<and> location a2 = d \<and> locationSource a2 = Ip
       \<and> suggestedState a2 = suggestedState a1)"
  by (simp add: Let_def fetchLocation_settle_def geolocation_error_def suggestedState_def)

theorem permission_denied_keeps_ip_suggestion_witness:
  "(let d = JObj [(js ''location'',
                    JObj [(js ''city'', JStr (js ''Pune'')), (js ''state'', JStr (js ''Maharashtra'')),
                          (js ''country'', JStr (js ''India'')), (js ''detected'', JBool True)]),
                  (js ''suggested_language'', JStr (js ''Marathi''))];
        r = \<lparr>status = 200, statusText = js ''OK'',
              headers = [''content-type'' \<mapsto> js ''application/json''],
              json_result = Some d, text_result = [],
              blob_result = \<lparr>blob_bytes = [], blob_type = []\<rparr>\<rparr>;
        a2 = geolocation_error PERMISSION_DENIED
               (fetchLocation_settle None (Inr (JsonResponse d r)) initial_app)
    in geolocationDenied a2 \<and> location a2 = d \<and> locationSource a2 = Ip
       \<and> suggestedState a2 = JStr (js ''Maharashtra''))"
proof -
  let ?d = "JObj [(js ''location'',
                    JObj [(js ''city'', JStr (js ''Pune'')), (js ''state'', JStr (js ''Maharashtra'')),
                          (js ''country'', JStr (js ''India'')), (js ''detected'', JBool True)]),
                  (js ''suggested_language'', JStr (js ''Marathi''))]"
  let ?r = "\<lparr>status = 200, statusText = js ''OK'',
              headers = [''content-type'' \<mapsto> js ''application/json''],
              json_result = Some ?d, text_result = [],
              blob_result = \<lparr>blob_bytes = [], blob_type = []\<rparr>\<rparr>"
  have s: "suggestedState (fetchLocation_settle None (Inr (JsonResponse ?d ?r)) initial_app)
             = JStr (js ''Maharashtra'')"
    by (simp add: fetchLocation_settle_def suggestedState_def js_or_def js_def)
  from permission_denied_keeps_ip_suggestion [of ?d ?r initial_app] s show ?thesis
    unfolding Let_def by simp
qed

end
